theory Spec2Isabelle
  imports Main
begin

section \<open>Data model (types.ts)\<close>

datatype UserRole = STUDENT | ADMIN

text \<open>Optional fields of the interface (\<^verbatim>\<open>password?\<close>, \<^verbatim>\<open>studentId?\<close>, ...) are options.
  The field \<^verbatim>\<open>id\<close> of each interface is prefixed, as are all fields, because record
  fields are global constants.\<close>

record User =
  u_id :: string
  u_name :: string
  u_email :: string
  u_password :: "string option"
  u_role :: UserRole
  u_studentId :: "string option"
  u_department :: "string option"
  u_yearSection :: "string option"
  u_mobile :: "string option"
  u_isBlocked :: bool

datatype SeatType = STANDARD | QUIET | PC

record Seat =
  s_id :: string
  s_label :: string
  s_type :: SeatType
  s_isMaintenance :: bool
  s_x :: nat
  s_y :: nat
  s_rotation :: int

datatype BookingStatus = ACTIVE | COMPLETED | CANCELLED

record Booking =
  b_id :: string
  b_seatId :: string
  b_userId :: string
  b_userName :: string
  b_date :: string
  b_startTime :: string
  b_endTime :: string
  b_timestamp :: nat
  b_status :: BookingStatus

section \<open>The hybrid store (services/storage.ts)\<close>

subsection \<open>Built-in fallback data\<close>

definition mkSeat :: "string \<Rightarrow> string \<Rightarrow> SeatType \<Rightarrow> nat \<Rightarrow> nat \<Rightarrow> int \<Rightarrow> Seat" where
  "mkSeat i l t px py r =
     \<lparr>s_id = i, s_label = l, s_type = t, s_isMaintenance = False, s_x = px, s_y = py, s_rotation = r\<rparr>"

definition INITIAL_SEATS :: "Seat list" where
  "INITIAL_SEATS =
    [mkSeat ''s-l1'' ''L1'' STANDARD 1 1 180,
     mkSeat ''s-l2'' ''L2'' STANDARD 2 1 180,
     mkSeat ''s-l3'' ''L3'' STANDARD 3 1 180,
     mkSeat ''s-pc1'' ''PC1'' PC 9 0 180,
     mkSeat ''s-pc2'' ''PC2'' PC 10 0 180,
     mkSeat ''s-pc3'' ''PC3'' PC 11 0 180,
     mkSeat ''s-pc4'' ''PC4'' PC 13 1 225,
     mkSeat ''s-t1-1'' ''T1-A'' QUIET 11 3 180,
     mkSeat ''s-t1-2'' ''T1-B'' QUIET 11 5 0,
     mkSeat ''s-t1-3'' ''T1-C'' QUIET 10 4 90,
     mkSeat ''s-t1-4'' ''T1-D'' QUIET 12 4 270,
     mkSeat ''s-t2-1'' ''T2-A'' QUIET 11 7 180,
     mkSeat ''s-t2-2'' ''T2-B'' QUIET 11 9 0,
     mkSeat ''s-t2-3'' ''T2-C'' QUIET 10 8 90,
     mkSeat ''s-t2-4'' ''T2-D'' QUIET 12 8 270,
     mkSeat ''s-c1'' ''C1'' STANDARD 1 4 90,
     mkSeat ''s-c2'' ''C2'' STANDARD 2 4 90,
     mkSeat ''s-c3'' ''C3'' STANDARD 3 4 90,
     mkSeat ''s-c4'' ''C4'' STANDARD 4 4 90,
     mkSeat ''s-c5'' ''C5'' STANDARD 1 6 90,
     mkSeat ''s-c6'' ''C6'' STANDARD 2 6 90,
     mkSeat ''s-c7'' ''C7'' STANDARD 3 6 90,
     mkSeat ''s-c8'' ''C8'' STANDARD 4 6 90,
     mkSeat ''s-c9'' ''C9'' STANDARD 1 8 90,
     mkSeat ''s-c10'' ''C10'' STANDARD 2 8 90,
     mkSeat ''s-c11'' ''C11'' STANDARD 3 8 90,
     mkSeat ''s-c12'' ''C12'' STANDARD 4 8 90]"

definition ADMIN_USER :: User where
  "ADMIN_USER =
     \<lparr>u_id = ''admin-1'', u_name = ''Library Admin'', u_email = ''admin@library.edu'',
      u_password = Some ''admin'', u_role = ADMIN, u_studentId = None, u_department = None,
      u_yearSection = None, u_mobile = None, u_isBlocked = False\<rparr>"

definition DEMO_STUDENT :: User where
  "DEMO_STUDENT =
     \<lparr>u_id = ''student-1'', u_name = ''John Doe'', u_email = ''john@student.edu'',
      u_password = Some ''pass'', u_role = STUDENT, u_studentId = Some ''CS2024001'',
      u_department = Some ''Computer Science'', u_yearSection = Some ''3-A'',
      u_mobile = Some ''5550123456'', u_isBlocked = False\<rparr>"

subsection \<open>Process state, local storage and the remote backend\<close>

text \<open>
  The state of one process (one page load): the module variable \<^verbatim>\<open>isOfflineMode\<close>, the
  four \<^verbatim>\<open>localStorage\<close> keys (\<open>None\<close>: the key is absent; a present key holds the parsed
  value of the JSON blob that the code itself wrote), and the log of the calls of
  \<^verbatim>\<open>fetch\<close> issued so far, which is how contact with the remote backend is observed.
\<close>

type_synonym request = "string \<times> string"

record store =
  isOfflineMode :: bool
  ls_users :: "User list option"
  ls_seats :: "Seat list option"
  ls_bookings :: "Booking list option"
  ls_current_user :: "User option"
  fetched :: "request list"

text \<open>
  What the remote backend does with one call of \<^verbatim>\<open>fetch\<close>, were it issued: the promise
  rejects (network failure), the 3000 ms timer aborts it, or a response arrives with a
  status and a body (\<open>None\<close>: the body is not the JSON the caller parses).
\<close>

datatype 'a fetch_outcome = NetworkFailure | Aborted | Responded nat "'a option"

definition API_URL :: string where
  "API_URL = ''http://localhost:3001/api''"

text \<open>
  \<^verbatim>\<open>safeFetch\<close>: \<open>Inl ()\<close> is a thrown error, \<open>Inr (status, body)\<close> the returned response.
  \<open>settle\<close> is the part that runs once \<^verbatim>\<open>fetch\<close> has been called and its promise
  settles; it is separate because \<^verbatim>\<open>Promise.all\<close> starts several calls before any settles.
\<close>

definition settle :: "'a fetch_outcome \<Rightarrow> store \<Rightarrow> (unit + nat \<times> 'a option) \<times> store" where
  "settle out st =
     (case out of
        Responded status body \<Rightarrow>
          if status \<ge> 500 then (Inl (), st\<lparr>isOfflineMode := True\<rparr>)
          else (Inr (status, body), st)
      | _ \<Rightarrow> (Inl (), st\<lparr>isOfflineMode := True\<rparr>))"

definition safeFetch :: "request \<Rightarrow> 'a fetch_outcome \<Rightarrow> store \<Rightarrow> (unit + nat \<times> 'a option) \<times> store" where
  "safeFetch req out st =
     (if isOfflineMode st then (Inl (), st)
      else settle out (st\<lparr>fetched := fetched st @ [req]\<rparr>))"

subsection \<open>Reads\<close>

text \<open>Each read is \<^verbatim>\<open>safeFetch\<close> followed by the rest of its body (\<open>_finish\<close>): the parsed
  body when the response carries one, the local storage otherwise.\<close>

definition getStoredUsers_fallback :: "store \<Rightarrow> User list \<times> store" where
  "getStoredUsers_fallback st =
     (case ls_users st of
        None \<Rightarrow> ([ADMIN_USER, DEMO_STUDENT], st\<lparr>ls_users := Some [ADMIN_USER, DEMO_STUDENT]\<rparr>)
      | Some us \<Rightarrow> (us, st))"

definition getStoredUsers_finish :: "(unit + nat \<times> User list option) \<times> store \<Rightarrow> User list \<times> store" where
  "getStoredUsers_finish res =
     (case res of
        (Inr (status, Some us), st1) \<Rightarrow> (us, st1)
      | (_, st1) \<Rightarrow> getStoredUsers_fallback st1)"

definition users_request :: request where
  "users_request = (''GET'', API_URL @ ''/users'')"

definition getStoredUsers :: "User list fetch_outcome \<Rightarrow> store \<Rightarrow> User list \<times> store" where
  "getStoredUsers out st = getStoredUsers_finish (safeFetch users_request out st)"

definition getStoredSeats_fallback :: "store \<Rightarrow> Seat list \<times> store" where
  "getStoredSeats_fallback st =
     (case ls_seats st of
        None \<Rightarrow> (INITIAL_SEATS, st\<lparr>ls_seats := Some INITIAL_SEATS\<rparr>)
      | Some ss \<Rightarrow> (ss, st))"

definition getStoredSeats_finish :: "(unit + nat \<times> Seat list option) \<times> store \<Rightarrow> Seat list \<times> store" where
  "getStoredSeats_finish res =
     (case res of
        (Inr (status, Some ss), st1) \<Rightarrow> (ss, st1)
      | (_, st1) \<Rightarrow> getStoredSeats_fallback st1)"

definition seats_request :: request where
  "seats_request = (''GET'', API_URL @ ''/seats'')"

definition getStoredSeats :: "Seat list fetch_outcome \<Rightarrow> store \<Rightarrow> Seat list \<times> store" where
  "getStoredSeats out st = getStoredSeats_finish (safeFetch seats_request out st)"

definition getStoredBookings_fallback :: "store \<Rightarrow> Booking list \<times> store" where
  "getStoredBookings_fallback st =
     (case ls_bookings st of None \<Rightarrow> ([], st) | Some bs \<Rightarrow> (bs, st))"

definition getStoredBookings_finish ::
  "(unit + nat \<times> Booking list option) \<times> store \<Rightarrow> Booking list \<times> store" where
  "getStoredBookings_finish res =
     (case res of
        (Inr (status, Some bs), st1) \<Rightarrow> (bs, st1)
      | (_, st1) \<Rightarrow> getStoredBookings_fallback st1)"

definition bookings_request :: request where
  "bookings_request = (''GET'', API_URL @ ''/bookings'')"

definition getStoredBookings :: "Booking list fetch_outcome \<Rightarrow> store \<Rightarrow> Booking list \<times> store" where
  "getStoredBookings out st = getStoredBookings_finish (safeFetch bookings_request out st)"

subsection \<open>Mutations\<close>

text \<open>\<^verbatim>\<open>Array.prototype.findIndex\<close>: the first index whose element satisfies the predicate
  (\<open>None\<close> for the source's \<open>-1\<close>).\<close>

fun findIndex :: "('a \<Rightarrow> bool) \<Rightarrow> 'a list \<Rightarrow> nat option" where
  "findIndex P [] = None"
| "findIndex P (a # as) =
     (if P a then Some 0 else (case findIndex P as of None \<Rightarrow> None | Some i \<Rightarrow> Some (Suc i)))"

text \<open>
  Every mutation first tries the remote backend and runs its fallback in the \<^verbatim>\<open>catch\<close>
  block. A fallback that re-reads the collection calls the hybrid read again, so a
  mutation takes two outcomes: one for its own request, one for the nested read.
\<close>

definition saveUser :: "User \<Rightarrow> unit fetch_outcome \<Rightarrow> User list fetch_outcome \<Rightarrow> store \<Rightarrow> store" where
  "saveUser user out outr st =
     (case safeFetch (''POST'', API_URL @ ''/users'') out st of
        (Inr _, st1) \<Rightarrow> st1
      | (Inl _, st1) \<Rightarrow>
          (case getStoredUsers outr st1 of
             (users, st2) \<Rightarrow> st2\<lparr>ls_users := Some (users @ [user])\<rparr>))"

definition updateUser :: "User \<Rightarrow> unit fetch_outcome \<Rightarrow> User list fetch_outcome \<Rightarrow> store \<Rightarrow> store" where
  "updateUser updatedUser out outr st =
     (case safeFetch (''PUT'', API_URL @ ''/users/'' @ u_id updatedUser) out st of
        (Inr _, st1) \<Rightarrow> st1
      | (Inl _, st1) \<Rightarrow>
          (case getStoredUsers outr st1 of
             (users, st2) \<Rightarrow>
               (case findIndex (\<lambda>u. u_id u = u_id updatedUser) users of
                  None \<Rightarrow> st2
                | Some index \<Rightarrow> st2\<lparr>ls_users := Some (users[index := updatedUser])\<rparr>)))"

definition saveSeats :: "Seat list \<Rightarrow> unit fetch_outcome \<Rightarrow> store \<Rightarrow> store" where
  "saveSeats seats out st =
     (case safeFetch (''POST'', API_URL @ ''/seats'') out st of
        (Inr _, st1) \<Rightarrow> st1
      | (Inl _, st1) \<Rightarrow> st1\<lparr>ls_seats := Some seats\<rparr>)"

text \<open>The offline conflict test of \<^verbatim>\<open>createBooking\<close> (\<^verbatim>\<open>bookings.some(...)\<close>).\<close>

definition isTaken :: "Booking list \<Rightarrow> Booking \<Rightarrow> bool" where
  "isTaken bookings booking =
     list_ex (\<lambda>b. b_seatId b = b_seatId booking \<and> b_date b = b_date booking \<and>
                  b_startTime b = b_startTime booking \<and> b_status b = ACTIVE) bookings"

definition createBooking ::
  "Booking \<Rightarrow> unit fetch_outcome \<Rightarrow> Booking list fetch_outcome \<Rightarrow> store \<Rightarrow> bool \<times> store" where
  "createBooking booking out outr st =
     (case safeFetch (''POST'', API_URL @ ''/bookings'') out st of
        (Inr (status, _), st1) \<Rightarrow> (status = 201, st1)
      | (Inl _, st1) \<Rightarrow>
          (case getStoredBookings outr st1 of
             (bookings, st2) \<Rightarrow>
               if isTaken bookings booking then (False, st2)
               else (True, st2\<lparr>ls_bookings := Some (bookings @ [booking])\<rparr>)))"

definition cancelBooking ::
  "string \<Rightarrow> unit fetch_outcome \<Rightarrow> Booking list fetch_outcome \<Rightarrow> store \<Rightarrow> store" where
  "cancelBooking bookingId out outr st =
     (case safeFetch (''PUT'', API_URL @ ''/bookings/'' @ bookingId @ ''/cancel'') out st of
        (Inr _, st1) \<Rightarrow> st1
      | (Inl _, st1) \<Rightarrow>
          (case getStoredBookings outr st1 of
             (bookings, st2) \<Rightarrow>
               (case findIndex (\<lambda>b. b_id b = bookingId) bookings of
                  None \<Rightarrow> st2
                | Some index \<Rightarrow>
                    st2\<lparr>ls_bookings :=
                          Some (bookings[index := (bookings ! index)\<lparr>b_status := CANCELLED\<rparr>])\<rparr>)))"

text \<open>
  \<^verbatim>\<open>toggleSeatMaintenance\<close> mutates the object returned by \<^verbatim>\<open>seats.find\<close> in place and
  writes the array back: the first seat with the id is replaced at its index.
\<close>

definition toggleSeatMaintenance ::
  "string \<Rightarrow> unit fetch_outcome \<Rightarrow> Seat list fetch_outcome \<Rightarrow> store \<Rightarrow> store" where
  "toggleSeatMaintenance seatId out outr st =
     (case safeFetch (''POST'', API_URL @ ''/seats/toggle-maintenance/'' @ seatId) out st of
        (Inr _, st1) \<Rightarrow> st1
      | (Inl _, st1) \<Rightarrow>
          (case getStoredSeats outr st1 of
             (seats, st2) \<Rightarrow>
               (case findIndex (\<lambda>s. s_id s = seatId) seats of
                  None \<Rightarrow> st2
                | Some index \<Rightarrow>
                    st2\<lparr>ls_seats :=
                          Some (seats[index := (seats ! index)
                                  \<lparr>s_isMaintenance := \<not> s_isMaintenance (seats ! index)\<rparr>])\<rparr>)))"

subsection \<open>Session (always local)\<close>

definition getSession :: "store \<Rightarrow> User option" where
  "getSession st = ls_current_user st"

definition setSession :: "User \<Rightarrow> store \<Rightarrow> store" where
  "setSession user st = st\<lparr>ls_current_user := Some user\<rparr>"

definition clearSession :: "store \<Rightarrow> store" where
  "clearSession st = st\<lparr>ls_current_user := None\<rparr>"

subsection \<open>The collections as the fallback store holds them\<close>

definition stored_users :: "store \<Rightarrow> User list" where
  "stored_users st = fst (getStoredUsers_fallback st)"

definition stored_seats :: "store \<Rightarrow> Seat list" where
  "stored_seats st = fst (getStoredSeats_fallback st)"

definition stored_bookings :: "store \<Rightarrow> Booking list" where
  "stored_bookings st = fst (getStoredBookings_fallback st)"

section \<open>Booking invariants\<close>

text \<open>No two records at different positions are both ACTIVE with the same key.\<close>

definition active_unique :: "(Booking \<Rightarrow> 'k) \<Rightarrow> Booking list \<Rightarrow> bool" where
  "active_unique key bs =
     (\<forall>i < length bs. \<forall>j < length bs.
        i \<noteq> j \<and> b_status (bs ! i) = ACTIVE \<and> b_status (bs ! j) = ACTIVE
          \<longrightarrow> key (bs ! i) \<noteq> key (bs ! j))"


definition user_unique :: "Booking list \<Rightarrow> bool" where
  "user_unique = active_unique (\<lambda>b. (b_userId b, b_date b, b_startTime b))"


section \<open>Sequences of store operations\<close>

text \<open>What the remote backend would answer during one operation, per kind of request.\<close>

record remote =
  r_write :: "unit fetch_outcome"
  r_users :: "User list fetch_outcome"
  r_seats :: "Seat list fetch_outcome"
  r_bookings :: "Booking list fetch_outcome"

text \<open>The exported functions of the store module, as calls and as returned values.\<close>

datatype store_op =
    GetStoredUsers | GetStoredSeats | GetStoredBookings
  | SaveUser User | UpdateUser User | SaveSeats "Seat list"
  | CreateBooking Booking | CancelBooking string | ToggleSeatMaintenance string
  | GetSession | SetSession User | ClearSession

datatype op_result =
    Users "User list" | Seats "Seat list" | Bookings "Booking list"
  | Success bool | Session "User option" | Void

fun exec :: "store_op \<Rightarrow> remote \<Rightarrow> store \<Rightarrow> op_result \<times> store" where
  "exec GetStoredUsers r st = (case getStoredUsers (r_users r) st of (us, st1) \<Rightarrow> (Users us, st1))"
| "exec GetStoredSeats r st = (case getStoredSeats (r_seats r) st of (ss, st1) \<Rightarrow> (Seats ss, st1))"
| "exec GetStoredBookings r st =
     (case getStoredBookings (r_bookings r) st of (bs, st1) \<Rightarrow> (Bookings bs, st1))"
| "exec (SaveUser u) r st = (Void, saveUser u (r_write r) (r_users r) st)"
| "exec (UpdateUser u) r st = (Void, updateUser u (r_write r) (r_users r) st)"
| "exec (SaveSeats ss) r st = (Void, saveSeats ss (r_write r) st)"
| "exec (CreateBooking b) r st =
     (case createBooking b (r_write r) (r_bookings r) st of (ok, st1) \<Rightarrow> (Success ok, st1))"
| "exec (CancelBooking i) r st = (Void, cancelBooking i (r_write r) (r_bookings r) st)"
| "exec (ToggleSeatMaintenance i) r st =
     (Void, toggleSeatMaintenance i (r_write r) (r_seats r) st)"
| "exec GetSession r st = (Session (getSession st), st)"
| "exec (SetSession u) r st = (Void, setSession u st)"
| "exec ClearSession r st = (Void, clearSession st)"

fun run :: "(store_op \<times> remote) list \<Rightarrow> store \<Rightarrow> op_result list \<times> store" where
  "run [] st = ([], st)"
| "run ((opn, r) # ops) st =
     (case exec opn r st of
        (res, st1) \<Rightarrow> (case run ops st1 of (ress, st2) \<Rightarrow> (res # ress, st2)))"

text \<open>The outcomes on which \<^verbatim>\<open>safeFetch\<close> throws: a rejected promise (network failure or
  the abort of the timeout) and a response with status 500 or more.\<close>

fun fetch_fails :: "'a fetch_outcome \<Rightarrow> bool" where
  "fetch_fails NetworkFailure = True"
| "fetch_fails Aborted = True"
| "fetch_fails (Responded status body) = (status \<ge> 500)"

section \<open>Numbers as strings\<close>

definition digit :: "nat \<Rightarrow> char" where
  "digit n = char_of (48 + n)"

text \<open>\<^verbatim>\<open>Number.prototype.toString\<close> on a non-negative integer: its decimal digits.\<close>

fun toString :: "nat \<Rightarrow> string" where
  "toString n = (if n < 10 then [digit n] else toString (n div 10) @ [digit (n mod 10)])"

declare toString.simps [simp del]

text \<open>\<^verbatim>\<open>s.padStart(2, '0')\<close>\<close>

definition padStart2 :: "string \<Rightarrow> string" where
  "padStart2 s = replicate (2 - length s) (CHR ''0'') @ s"

section \<open>Student dashboard (components/StudentDashboard.tsx)\<close>

subsection \<open>Time slots\<close>

record Slot =
  slot_value :: string
  slot_label :: string
  slot_hourInt :: nat

text \<open>\<^verbatim>\<open>h % 12 || 12\<close> and the AM/PM suffix of the slot label.\<close>

definition hour12 :: "nat \<Rightarrow> nat" where
  "hour12 h = (if h mod 12 = 0 then 12 else h mod 12)"

definition meridiem :: "nat \<Rightarrow> string" where
  "meridiem h = (if h < 12 then ''AM'' else ''PM'')"

definition mkSlot :: "nat \<Rightarrow> Slot" where
  "mkSlot i =
     (let hour = i + 8 in
      \<lparr>slot_value = padStart2 (toString hour) @ '':00'',
       slot_label = toString (hour12 hour) @ '' '' @ meridiem hour @ '' - '' @
                    toString (hour12 (hour + 1)) @ '' '' @ meridiem (hour + 1),
       slot_hourInt = hour\<rparr>)"

definition ALL_TIME_SLOTS :: "Slot list" where
  "ALL_TIME_SLOTS = map mkSlot [0..<12]"

subsection \<open>Dates and the clock\<close>

text \<open>
  A \<^verbatim>\<open>Date\<close> is its time value: milliseconds since 1970-01-01T00:00Z. A calendar day is
  its day number, counted from 1970-01-01; the string \<^verbatim>\<open>yyyy-MM-dd\<close> held by the dashboard
  stands for the day it names. The host's time zone is \<open>tz\<close> minutes east of UTC, the
  same at every instant considered.

  \<^item> \<^verbatim>\<open>new Date('yyyy-MM-dd')\<close>: ECMAScript reads a date-only string as UTC, so the
    result is midnight UTC of that day (\<open>dateOnly\<close>);
  \<^item> \<^verbatim>\<open>now.getHours()\<close> is the hour of the local time;
  \<^item> \<^verbatim>\<open>isSameDay(a, b)\<close> of date-fns compares the local start of day of both dates.
\<close>

type_synonym instant = int

definition msPerDay :: int where "msPerDay = 86400000"
definition msPerHour :: int where "msPerHour = 3600000"
definition msPerMinute :: int where "msPerMinute = 60000"

definition dateOnly :: "int \<Rightarrow> instant" where
  "dateOnly day = day * msPerDay"

definition localDay :: "int \<Rightarrow> instant \<Rightarrow> int" where
  "localDay tz t = (t + tz * msPerMinute) div msPerDay"

definition getHours :: "int \<Rightarrow> instant \<Rightarrow> nat" where
  "getHours tz t = nat (((t + tz * msPerMinute) mod msPerDay) div msPerHour)"

definition isSameDay :: "int \<Rightarrow> instant \<Rightarrow> instant \<Rightarrow> bool" where
  "isSameDay tz a b = (localDay tz a = localDay tz b)"

definition getAvailableTimeSlots :: "int \<Rightarrow> int \<Rightarrow> instant \<Rightarrow> Slot list" where
  "getAvailableTimeSlots tz selectedDate now =
     (let isToday = isSameDay tz (dateOnly selectedDate) now;
          currentHour = getHours tz now
      in filter (\<lambda>slot. if isToday then slot_hourInt slot > currentHour else True) ALL_TIME_SLOTS)"

subsection \<open>Component state and handlers\<close>

datatype toast_type = ToastSuccess | ToastError

record dashboard =
  sd_user :: User
  sd_selectedDate :: string
  sd_selectedTime :: string
  sd_seats :: "Seat list"
  sd_bookings :: "Booking list"
  sd_selectedSeat :: "Seat option"
  sd_toast :: "(string \<times> toast_type) option"
  sd_isLoading :: bool

text \<open>The state of a freshly mounted dashboard; \<open>today\<close> is
  \<^verbatim>\<open>format(new Date(), 'yyyy-MM-dd')\<close>.\<close>

definition dashboard_init :: "User \<Rightarrow> string \<Rightarrow> dashboard" where
  "dashboard_init user today =
     \<lparr>sd_user = user, sd_selectedDate = today, sd_selectedTime = '''', sd_seats = [],
      sd_bookings = [], sd_selectedSeat = None, sd_toast = None, sd_isLoading = False\<rparr>"

text \<open>
  \<^verbatim>\<open>loadData\<close> reads seats and bookings under \<^verbatim>\<open>Promise.all\<close>: both reads call
  \<^verbatim>\<open>safeFetch\<close>, which tests the flag and calls \<^verbatim>\<open>fetch\<close>, before either request settles.
  The two fallbacks touch different keys, so the order in which they settle is immaterial.
\<close>

definition loadData :: "remote \<Rightarrow> dashboard \<Rightarrow> store \<Rightarrow> dashboard \<times> store" where
  "loadData r d st =
     (if isOfflineMode st then
        (case getStoredSeats_finish (Inl (), st) of
           (s, st1) \<Rightarrow>
             (case getStoredBookings_finish (Inl (), st1) of
                (b, st2) \<Rightarrow> (d\<lparr>sd_seats := s, sd_bookings := b, sd_isLoading := False\<rparr>, st2)))
      else
        (case getStoredSeats_finish
                (settle (r_seats r) (st\<lparr>fetched := fetched st @ [seats_request, bookings_request]\<rparr>)) of
           (s, st1) \<Rightarrow>
             (case getStoredBookings_finish (settle (r_bookings r) st1) of
                (b, st2) \<Rightarrow> (d\<lparr>sd_seats := s, sd_bookings := b, sd_isLoading := False\<rparr>, st2))))"

text \<open>
  \<^verbatim>\<open>format(addHours(new Date(`2000-01-01T${selectedTime}`), 1), 'HH:00')\<close> for a time of
  the form \<^verbatim>\<open>HH:mm\<close>, the only form the dashboard selects; \<open>None\<close> stands for the
  \<^verbatim>\<open>RangeError\<close> that \<^verbatim>\<open>format\<close> throws on an invalid date.
\<close>

definition is_digit :: "char \<Rightarrow> bool" where
  "is_digit c = (48 \<le> (of_char c :: nat) \<and> (of_char c :: nat) \<le> 57)"

definition digit_val :: "char \<Rightarrow> nat" where
  "digit_val c = of_char c - 48"

definition parseHHmm :: "string \<Rightarrow> (nat \<times> nat) option" where
  "parseHHmm t =
     (case t of
        [a, b, c, d, e] \<Rightarrow>
          if is_digit a \<and> is_digit b \<and> c = CHR '':'' \<and> is_digit d \<and> is_digit e
             \<and> 10 * digit_val a + digit_val b < 24 \<and> 10 * digit_val d + digit_val e < 60
          then Some (10 * digit_val a + digit_val b, 10 * digit_val d + digit_val e)
          else None
      | _ \<Rightarrow> None)"

definition endTimeOf :: "string \<Rightarrow> string option" where
  "endTimeOf selectedTime =
     (case parseHHmm selectedTime of
        None \<Rightarrow> None
      | Some (h, m) \<Rightarrow> Some (padStart2 (toString ((h + 1) mod 24)) @ '':00''))"

definition hasConflict :: "dashboard \<Rightarrow> bool" where
  "hasConflict d =
     list_ex (\<lambda>b. b_userId b = u_id (sd_user d) \<and> b_date b = sd_selectedDate d \<and>
                  b_startTime b = sd_selectedTime d \<and> b_status b = ACTIVE) (sd_bookings d)"

definition showToast :: "string \<Rightarrow> toast_type \<Rightarrow> dashboard \<Rightarrow> dashboard" where
  "showToast msg ty d = d\<lparr>sd_toast := Some (msg, ty)\<rparr>"

text \<open>\<^verbatim>\<open>handleBook\<close>; \<open>nowId\<close> and \<open>nowTs\<close> are the two readings of \<^verbatim>\<open>Date.now()\<close>.\<close>

definition handleBook :: "nat \<Rightarrow> nat \<Rightarrow> remote \<Rightarrow> dashboard \<Rightarrow> store \<Rightarrow> dashboard \<times> store" where
  "handleBook nowId nowTs r d st =
     (case sd_selectedSeat d of
        None \<Rightarrow> (d, st)
      | Some selectedSeat \<Rightarrow>
          if sd_selectedTime d = '''' then
            (showToast ''No time slots available for this date.'' ToastError d, st)
          else if hasConflict d then
            (showToast ''You already have a booking for this time slot.'' ToastError d, st)
          else
            (case endTimeOf (sd_selectedTime d) of
               None \<Rightarrow> (d, st)
             | Some endTime \<Rightarrow>
                 let newBooking =
                       \<lparr>b_id = ''bk-'' @ toString nowId, b_seatId = s_id selectedSeat,
                        b_userId = u_id (sd_user d), b_userName = u_name (sd_user d),
                        b_date = sd_selectedDate d, b_startTime = sd_selectedTime d,
                        b_endTime = endTime, b_timestamp = nowTs, b_status = ACTIVE\<rparr>
                 in (case createBooking newBooking (r_write r) (r_bookings r) st of
                       (success, st1) \<Rightarrow>
                         if success then
                           (case loadData r d st1 of
                              (d1, st2) \<Rightarrow>
                                ((showToast ''Seat booked successfully!'' ToastSuccess d1)
                                   \<lparr>sd_selectedSeat := None, sd_isLoading := False\<rparr>, st2))
                         else
                           ((showToast ''Failed to book seat. It may have been taken.'' ToastError d)
                              \<lparr>sd_isLoading := False\<rparr>, st1))))"

text \<open>\<^verbatim>\<open>handleCancel\<close> once the user has confirmed the dialog.\<close>

definition handleCancel :: "string \<Rightarrow> remote \<Rightarrow> dashboard \<Rightarrow> store \<Rightarrow> dashboard \<times> store" where
  "handleCancel bookingId r d st =
     (case loadData r d (cancelBooking bookingId (r_write r) (r_bookings r) st) of
        (d1, st1) \<Rightarrow> ((showToast ''Booking cancelled.'' ToastSuccess d1)\<lparr>sd_isLoading := False\<rparr>, st1))"

subsection \<open>The booking flow as a sequence of user actions\<close>

text \<open>
  What a student does on a mounted dashboard: pick a date, a time (a slot of
  \<open>ALL_TIME_SLOTS\<close>, or none), a seat, switch tab (which reloads), confirm a booking,
  cancel one.
\<close>

datatype sd_event =
    SelectDate string | SelectTime string | SelectSeat Seat
  | SwitchTab remote | Book nat nat remote | Cancel string remote

fun sd_step :: "sd_event \<Rightarrow> dashboard \<times> store \<Rightarrow> dashboard \<times> store" where
  "sd_step (SelectDate date) (d, st) = (d\<lparr>sd_selectedDate := date\<rparr>, st)"
| "sd_step (SelectTime t) (d, st) =
     (if t = '''' \<or> t \<in> set (map slot_value ALL_TIME_SLOTS) then (d\<lparr>sd_selectedTime := t\<rparr>, st)
      else (d, st))"
| "sd_step (SelectSeat seat) (d, st) = (d\<lparr>sd_selectedSeat := Some seat\<rparr>, st)"
| "sd_step (SwitchTab r) (d, st) = loadData r d st"
| "sd_step (Book nowId nowTs r) (d, st) = handleBook nowId nowTs r d st"
| "sd_step (Cancel bookingId r) (d, st) = handleCancel bookingId r d st"

fun sd_run :: "sd_event list \<Rightarrow> dashboard \<times> store \<Rightarrow> dashboard \<times> store" where
  "sd_run [] c = c"
| "sd_run (e # es) c = sd_run es (sd_step e c)"

text \<open>One student session: the dashboard mounts (its effect runs \<^verbatim>\<open>loadData\<close>), then the
  student acts. Sessions follow one another on the same store.\<close>

definition student_session :: "User \<Rightarrow> string \<Rightarrow> remote \<Rightarrow> sd_event list \<Rightarrow> store \<Rightarrow> store" where
  "student_session user today r es st = snd (sd_run es (loadData r (dashboard_init user today) st))"

fun student_sessions :: "(User \<times> string \<times> remote \<times> sd_event list) list \<Rightarrow> store \<Rightarrow> store" where
  "student_sessions [] st = st"
| "student_sessions ((user, today, r, es) # ss) st =
     student_sessions ss (student_session user today r es st)"

section \<open>Authentication form (components/Auth.tsx)\<close>

record formData =
  f_name :: string
  f_email :: string
  f_password :: string
  f_studentId :: string
  f_department :: string
  f_yearSection :: string
  f_mobile :: string

record auth =
  a_isLogin :: bool
  a_formData :: formData
  a_error :: string
  a_isLoading :: bool

subsection \<open>Validation\<close>

text \<open>The white space of \<^verbatim>\<open>\s\<close> and of \<^verbatim>\<open>trim\<close> among the 8-bit characters: tab, line feed,
  vertical tab, form feed, carriage return, space and no-break space.\<close>

definition is_space :: "char \<Rightarrow> bool" where
  "is_space c = ((of_char c :: nat) \<in> {9, 10, 11, 12, 13, 32, 160})"

definition trim :: "string \<Rightarrow> string" where
  "trim s = rev (dropWhile is_space (rev (dropWhile is_space s)))"

text \<open>A character of the class \<^verbatim>\<open>[^\s@]\<close>.\<close>

definition email_char :: "char \<Rightarrow> bool" where
  "email_char c = (\<not> is_space c \<and> c \<noteq> CHR ''@'')"

text \<open>
  \<^verbatim>\<open>/^[^\s@]+@[^\s@]+\.[^\s@]+$/.test(s)\<close>: the text before the first \<^verbatim>\<open>@\<close> is not empty
  and has no white space, the text after it has neither white space nor \<^verbatim>\<open>@\<close>, and
  holds a dot that is neither its first nor its last character.
\<close>

definition emailRegex_test :: "string \<Rightarrow> bool" where
  "emailRegex_test s =
     (let a = takeWhile (\<lambda>c. c \<noteq> CHR ''@'') s;
          rest = dropWhile (\<lambda>c. c \<noteq> CHR ''@'') s
      in a \<noteq> [] \<and> list_all email_char a \<and>
         (case rest of
            [] \<Rightarrow> False
          | at # d \<Rightarrow> list_all email_char d \<and> CHR ''.'' \<in> set (tl (butlast d))))"

text \<open>\<^verbatim>\<open>/^\d{10}$/.test(s)\<close>\<close>

definition mobileRegex_test :: "string \<Rightarrow> bool" where
  "mobileRegex_test s = (length s = 10 \<and> list_all is_digit s)"

definition validateForm :: "auth \<Rightarrow> string option" where
  "validateForm a =
     (let formData = a_formData a in
      if \<not> emailRegex_test (f_email formData) then Some ''Please enter a valid email address.''
      else if length (f_password formData) < 4 then
        Some ''Password must be at least 4 characters long.''
      else if \<not> a_isLogin a then
        (if trim (f_name formData) = '''' then Some ''Full Name is required.''
         else if trim (f_studentId formData) = '''' then Some ''Student ID is required.''
         else if f_department formData = '''' then Some ''Please select a department.''
         else if \<not> mobileRegex_test (f_mobile formData) then
           Some ''Mobile number must be exactly 10 digits.''
         else None)
      else None)"

subsection \<open>Submitting the form\<close>

definition blocked_message :: string where
  "blocked_message = ''Your account has been blocked by the administrator.''"

definition invalid_message :: string where
  "invalid_message = ''Invalid credentials. Please try again.''"

definition duplicate_message :: string where
  "duplicate_message = ''An account with this email already exists.''"

text \<open>
  \<^verbatim>\<open>handleSubmit\<close> returns the component state, the user passed to \<^verbatim>\<open>onLogin\<close> (if it is
  called) and the store; \<open>now\<close> is \<^verbatim>\<open>Date.now()\<close>. The reads and writes of the store do not
  throw, so the \<^verbatim>\<open>catch\<close> block has no branch here.
\<close>

definition handleSubmit :: "nat \<Rightarrow> remote \<Rightarrow> auth \<Rightarrow> store \<Rightarrow> auth \<times> User option \<times> store" where
  "handleSubmit now r a st =
     (let formData = a_formData a in
      case validateForm a of
        Some validationError \<Rightarrow> (a\<lparr>a_error := validationError\<rparr>, None, st)
      | None \<Rightarrow>
          (case getStoredUsers (r_users r) st of
             (users, st1) \<Rightarrow>
               if a_isLogin a then
                 (case find (\<lambda>u. u_email u = f_email formData \<and>
                                  u_password u = Some (f_password formData)) users of
                    Some user \<Rightarrow>
                      if u_isBlocked user then
                        (a\<lparr>a_error := blocked_message, a_isLoading := False\<rparr>, None, st1)
                      else (a\<lparr>a_error := '''', a_isLoading := True\<rparr>, Some user, st1)
                  | None \<Rightarrow> (a\<lparr>a_error := invalid_message, a_isLoading := False\<rparr>, None, st1))
               else
                 (case find (\<lambda>u. u_email u = f_email formData) users of
                    Some existing \<Rightarrow>
                      (a\<lparr>a_error := duplicate_message, a_isLoading := False\<rparr>, None, st1)
                  | None \<Rightarrow>
                      let newUser =
                            \<lparr>u_id = ''user-'' @ toString now, u_name = f_name formData,
                             u_email = f_email formData, u_password = Some (f_password formData),
                             u_role = STUDENT, u_studentId = Some (f_studentId formData),
                             u_department = Some (f_department formData),
                             u_yearSection = Some (f_yearSection formData),
                             u_mobile = Some (f_mobile formData), u_isBlocked = False\<rparr>
                      in (a\<lparr>a_error := '''', a_isLoading := True\<rparr>, Some newUser,
                          saveUser newUser (r_write r) (r_users r) st1))))"

section \<open>Seat layout editor (components/AdminDashboard.tsx)\<close>

record admin =
  ad_seats :: "Seat list"
  ad_selectedSeat :: "Seat option"
  ad_isEditMode :: bool

text \<open>\<^verbatim>\<open>String.fromCharCode(65 + y)\<close> followed by \<^verbatim>\<open>x + 1\<close> in decimal. A character is
  8 bits wide here, which is exact for the rows \<open>y < 191\<close>.\<close>

definition generateLabel :: "nat \<Rightarrow> nat \<Rightarrow> string" where
  "generateLabel x y = char_of (65 + y) # toString (x + 1)"

text \<open>\<^verbatim>\<open>handleEmptySlotClick\<close>; \<open>now\<close> is \<^verbatim>\<open>Date.now()\<close>.\<close>

definition handleEmptySlotClick ::
  "nat \<Rightarrow> nat \<Rightarrow> nat \<Rightarrow> unit fetch_outcome \<Rightarrow> admin \<Rightarrow> store \<Rightarrow> admin \<times> store" where
  "handleEmptySlotClick x y now out ad st =
     (if \<not> ad_isEditMode ad then (ad, st)
      else
        (case ad_selectedSeat ad of
           Some selectedSeat \<Rightarrow>
             let updatedSeats =
                   map (\<lambda>s. if s_id s = s_id selectedSeat
                             then s\<lparr>s_x := x, s_y := y, s_label := generateLabel x y\<rparr> else s)
                       (ad_seats ad)
             in (ad\<lparr>ad_seats := updatedSeats, ad_selectedSeat := None\<rparr>,
                 saveSeats updatedSeats out st)
         | None \<Rightarrow>
             let newSeat =
                   \<lparr>s_id = ''seat-'' @ toString now, s_label = generateLabel x y,
                    s_type = STANDARD, s_isMaintenance = False, s_x = x, s_y = y, s_rotation = 0\<rparr>;
                 updatedSeats = ad_seats ad @ [newSeat]
             in (ad\<lparr>ad_seats := updatedSeats\<rparr>, saveSeats updatedSeats out st)))"

text \<open>The remainder operator \<^verbatim>\<open>%\<close> on integers: the result has the sign of the dividend.\<close>

definition js_rem :: "int \<Rightarrow> int \<Rightarrow> int" where
  "js_rem a n = sgn a * (\<bar>a\<bar> mod \<bar>n\<bar>)"

text \<open>\<^verbatim>\<open>handleRotateSeat\<close>; \<^verbatim>\<open>selectedSeat.rotation || 0\<close> replaces the falsy rotation, 0, by 0.\<close>

definition handleRotateSeat :: "unit fetch_outcome \<Rightarrow> admin \<Rightarrow> store \<Rightarrow> admin \<times> store" where
  "handleRotateSeat out ad st =
     (case ad_selectedSeat ad of
        None \<Rightarrow> (ad, st)
      | Some selectedSeat \<Rightarrow>
          let newRotation =
                js_rem ((if s_rotation selectedSeat = 0 then 0 else s_rotation selectedSeat) + 90) 360;
              updatedSeats =
                map (\<lambda>s. if s_id s = s_id selectedSeat then s\<lparr>s_rotation := newRotation\<rparr> else s)
                    (ad_seats ad)
          in (ad\<lparr>ad_seats := updatedSeats,
                 ad_selectedSeat := Some (selectedSeat\<lparr>s_rotation := newRotation\<rparr>)\<rparr>,
              saveSeats updatedSeats out st))"

text \<open>The rotate button pressed \<open>n\<close> times, each press with the outcome of its save.\<close>

fun rotations :: "unit fetch_outcome list \<Rightarrow> admin \<times> store \<Rightarrow> admin \<times> store" where
  "rotations [] c = c"
| "rotations (out # outs) (ad, st) = rotations outs (handleRotateSeat out ad st)"

section \<open>Auxiliary notions for the statements\<close>

text \<open>What the booking flow maintains in offline mode: the dashboard holds the bookings
  of the store, and no user has two ACTIVE bookings for one date and start time.\<close>

definition flow_inv :: "dashboard \<times> store \<Rightarrow> bool" where
  "flow_inv c = (case c of (d, st) \<Rightarrow>
     isOfflineMode st \<and> sd_bookings d = stored_bookings st \<and> user_unique (stored_bookings st))"

text \<open>The number that a string of decimal digits denotes.\<close>

definition decimal_value :: "string \<Rightarrow> nat" where
  "decimal_value s = foldl (\<lambda>n c. 10 * n + digit_val c) 0 s"

text \<open>The seat update of \<^verbatim>\<open>handleRotateSeat\<close>: the rotation of the seats with the given id.\<close>

definition set_rotation :: "string \<Rightarrow> int \<Rightarrow> Seat \<Rightarrow> Seat" where
  "set_rotation sid r s = (if s_id s = sid then s\<lparr>s_rotation := r\<rparr> else s)"

section \<open>Example states and inputs\<close>

definition offline_store :: store where
  "offline_store =
     \<lparr>isOfflineMode = True, ls_users = None, ls_seats = None, ls_bookings = None,
      ls_current_user = None, fetched = []\<rparr>"

definition online_store :: store where
  "online_store = offline_store\<lparr>isOfflineMode := False\<rparr>"

definition backend_down :: remote where
  "backend_down =
     \<lparr>r_write = NetworkFailure, r_users = NetworkFailure, r_seats = NetworkFailure,
      r_bookings = NetworkFailure\<rparr>"

definition backend_up :: remote where
  "backend_up =
     \<lparr>r_write = Responded 201 None, r_users = Responded 200 (Some []),
      r_seats = Responded 200 (Some []), r_bookings = Responded 200 (Some [])\<rparr>"

definition example_booking :: "string \<Rightarrow> string \<Rightarrow> string \<Rightarrow> BookingStatus \<Rightarrow> Booking" where
  "example_booking i seat t status =
     \<lparr>b_id = i, b_seatId = seat, b_userId = ''student-1'', b_userName = ''John Doe'',
      b_date = ''2024-05-10'', b_startTime = t, b_endTime = ''11:00'',
      b_timestamp = 1715371200000, b_status = status\<rparr>"

definition example_bookings_store :: store where
  "example_bookings_store =
     offline_store\<lparr>ls_bookings := Some [example_booking ''bk-1'' ''s-l1'' ''10:00'' ACTIVE,
                                        example_booking ''bk-2'' ''s-l2'' ''11:00'' ACTIVE]\<rparr>"


definition example_ops :: "remote \<Rightarrow> (store_op \<times> remote) list" where
  "example_ops r =
     [(GetStoredBookings, r),
      (CreateBooking (example_booking ''bk-1'' ''s-l1'' ''10:00'' ACTIVE), r),
      (GetStoredUsers, r), (ToggleSeatMaintenance ''s-l1'', r)]"

definition after_timeout :: store where
  "after_timeout = snd (safeFetch users_request (Aborted :: User list fetch_outcome) online_store)"

definition example_seat :: "string \<Rightarrow> nat \<Rightarrow> int \<Rightarrow> Seat" where
  "example_seat i px r = mkSeat i ''L1'' STANDARD px 1 r"

definition example_session :: "User \<times> string \<times> remote \<times> sd_event list" where
  "example_session =
     (DEMO_STUDENT, ''2024-05-10'', backend_down,
      [SelectTime ''10:00'', SelectSeat (example_seat ''s-l1'' 1 180), Book 1 1 backend_down,
       SelectSeat (example_seat ''s-l2'' 2 180), Book 2 2 backend_down,
       SelectTime ''11:00'', SelectSeat (example_seat ''s-l2'' 2 180), Book 3 3 backend_down])"

definition register_form :: auth where
  "register_form =
     \<lparr>a_isLogin = False,
      a_formData = \<lparr>f_name = ''Jane Roe'', f_email = ''john@student.edu'', f_password = ''secret'',
                    f_studentId = ''CS2024002'', f_department = ''Computer Science'',
                    f_yearSection = ''3-A'', f_mobile = ''5550123457''\<rparr>,
      a_error = '''', a_isLoading = False\<rparr>"

definition login_form :: auth where
  "login_form =
     \<lparr>a_isLogin = True,
      a_formData = \<lparr>f_name = '''', f_email = ''john@student.edu'', f_password = ''pass'',
                    f_studentId = '''', f_department = '''', f_yearSection = '''', f_mobile = ''''\<rparr>,
      a_error = '''', a_isLoading = False\<rparr>"

definition blocked_store :: store where
  "blocked_store = offline_store\<lparr>ls_users := Some [ADMIN_USER, DEMO_STUDENT\<lparr>u_isBlocked := True\<rparr>]\<rparr>"

definition example_editor :: "Seat option \<Rightarrow> admin" where
  "example_editor sel =
     \<lparr>ad_seats = [example_seat ''s-l1'' 1 0, example_seat ''s-l2'' 2 180],
      ad_selectedSeat = sel, ad_isEditMode = True\<rparr>"

text \<open>
  Two ways in which a dashboard checks bookings that are not those of the local store.
  Two tabs of one browser share the local storage; both are offline and have loaded the
  store, the student books in the first and then in the second. And: the local store
  holds a booking from an earlier offline run, the backend answers while the dashboard
  loads and is lost when the booking is posted.
\<close>

definition backend_serving :: remote where
  "backend_serving =
     \<lparr>r_write = Responded 201 None, r_users = Responded 200 (Some [ADMIN_USER, DEMO_STUDENT]),
      r_seats = Responded 200 (Some INITIAL_SEATS), r_bookings = Responded 200 (Some [])\<rparr>"

definition first_tab :: "dashboard \<times> store" where
  "first_tab = loadData backend_down (dashboard_init DEMO_STUDENT ''2024-05-10'') offline_store"

definition second_tab :: dashboard where
  "second_tab = fst (loadData backend_down (dashboard_init DEMO_STUDENT ''2024-05-10'') (snd first_tab))"

definition after_first_tab :: store where
  "after_first_tab =
     snd (sd_run [SelectTime ''10:00'', SelectSeat (INITIAL_SEATS ! 0), Book 1 1 backend_down]
            first_tab)"

definition after_second_tab :: store where
  "after_second_tab =
     snd (sd_run [SelectTime ''10:00'', SelectSeat (INITIAL_SEATS ! 1), Book 2 2 backend_down]
            (second_tab, after_first_tab))"

definition earlier_offline_run :: store where
  "earlier_offline_run =
     online_store\<lparr>ls_bookings := Some [example_booking ''bk-1'' ''s-l1'' ''10:00'' ACTIVE]\<rparr>"

definition after_backend_loss :: store where
  "after_backend_loss =
     student_sessions
       [(DEMO_STUDENT, ''2024-05-10'', backend_serving,
         [SelectTime ''10:00'', SelectSeat (INITIAL_SEATS ! 1), Book 2 2 backend_down])]
       earlier_offline_run"

text \<open>
  How two stored users come to share an email: the student registers the email of the
  built-in student again while the backend answers the read of the users with an empty
  list and is lost when the new user is posted, so that the fallback appends it to the
  local users. The administrator then blocks the new account.
\<close>

definition second_john_form :: auth where
  "second_john_form =
     \<lparr>a_isLogin = False,
      a_formData = \<lparr>f_name = ''John Doe'', f_email = ''john@student.edu'', f_password = ''pass'',
                    f_studentId = ''CS2024001'', f_department = ''Computer Science'',
                    f_yearSection = ''3-A'', f_mobile = ''5550123456''\<rparr>,
      a_error = '''', a_isLoading = False\<rparr>"

definition backend_lost_on_post :: remote where
  "backend_lost_on_post =
     \<lparr>r_write = NetworkFailure, r_users = Responded 200 (Some []),
      r_seats = Responded 200 (Some []), r_bookings = Responded 200 (Some [])\<rparr>"

definition after_second_registration :: store where
  "after_second_registration =
     snd (snd (handleSubmit 7 backend_lost_on_post second_john_form online_store))"

definition duplicate_blocked_store :: store where
  "duplicate_blocked_store =
     updateUser ((stored_users after_second_registration ! 2)\<lparr>u_isBlocked := True\<rparr>)
       NetworkFailure NetworkFailure after_second_registration"

section \<open>Properties of the store\<close>

subsection \<open>The store in offline mode\<close>

lemma safeFetch_offline: "isOfflineMode st \<Longrightarrow> safeFetch req out st = (Inl (), st)"
  by (simp add: safeFetch_def)

lemma getStoredUsers_offline:
  "isOfflineMode st \<Longrightarrow> getStoredUsers out st = getStoredUsers_fallback st"
  by (simp add: getStoredUsers_def safeFetch_offline getStoredUsers_finish_def)

lemma getStoredSeats_offline:
  "isOfflineMode st \<Longrightarrow> getStoredSeats out st = getStoredSeats_fallback st"
  by (simp add: getStoredSeats_def safeFetch_offline getStoredSeats_finish_def)

lemma getStoredBookings_offline:
  "isOfflineMode st \<Longrightarrow> getStoredBookings out st = (stored_bookings st, st)"
  by (simp add: getStoredBookings_def safeFetch_offline getStoredBookings_finish_def
      getStoredBookings_fallback_def stored_bookings_def split: option.splits)

lemma stored_bookings_update [simp]:
  "stored_bookings (st\<lparr>ls_bookings := Some bs\<rparr>) = bs"
  by (simp add: stored_bookings_def getStoredBookings_fallback_def)

lemma stored_seats_update [simp]:
  "stored_seats (st\<lparr>ls_seats := Some ss\<rparr>) = ss"
  by (simp add: stored_seats_def getStoredSeats_fallback_def)

lemma stored_users_update [simp]:
  "stored_users (st\<lparr>ls_users := Some us\<rparr>) = us"
  by (simp add: stored_users_def getStoredUsers_fallback_def)

lemma getStoredSeats_fallback_eq:
  "getStoredSeats_fallback st = (stored_seats st, st\<lparr>ls_seats := Some (stored_seats st)\<rparr>)"
  by (cases "ls_seats st") (simp_all add: getStoredSeats_fallback_def stored_seats_def)

lemma getStoredUsers_fallback_eq:
  "getStoredUsers_fallback st = (stored_users st, st\<lparr>ls_users := Some (stored_users st)\<rparr>)"
  by (cases "ls_users st") (simp_all add: getStoredUsers_fallback_def stored_users_def)

lemma createBooking_offline:
  "isOfflineMode st \<Longrightarrow> createBooking b out outr st =
     (if isTaken (stored_bookings st) b then (False, st)
      else (True, st\<lparr>ls_bookings := Some (stored_bookings st @ [b])\<rparr>))"
  by (simp add: createBooking_def safeFetch_offline getStoredBookings_offline)

lemma cancelBooking_offline:
  "isOfflineMode st \<Longrightarrow> cancelBooking bid out outr st =
     (case findIndex (\<lambda>b. b_id b = bid) (stored_bookings st) of
        None \<Rightarrow> st
      | Some i \<Rightarrow> st\<lparr>ls_bookings :=
            Some ((stored_bookings st)[i := (stored_bookings st ! i)\<lparr>b_status := CANCELLED\<rparr>])\<rparr>)"
  by (simp add: cancelBooking_def safeFetch_offline getStoredBookings_offline)

lemma toggleSeatMaintenance_offline:
  "isOfflineMode st \<Longrightarrow> toggleSeatMaintenance sid out outr st =
     (case findIndex (\<lambda>s. s_id s = sid) (stored_seats st) of
        None \<Rightarrow> st\<lparr>ls_seats := Some (stored_seats st)\<rparr>
      | Some i \<Rightarrow> st\<lparr>ls_seats :=
            Some ((stored_seats st)[i := (stored_seats st ! i)
                    \<lparr>s_isMaintenance := \<not> s_isMaintenance (stored_seats st ! i)\<rparr>])\<rparr>)"
  by (simp add: toggleSeatMaintenance_def safeFetch_offline getStoredSeats_offline
      getStoredSeats_fallback_eq split: option.splits)

subsection \<open>The first index found\<close>

lemma findIndex_Some:
  "findIndex P xs = Some i \<Longrightarrow> i < length xs \<and> P (xs ! i) \<and> (\<forall>j < i. \<not> P (xs ! j))"
proof (induction xs arbitrary: i)
  case Nil
  then show ?case by simp
next
  case (Cons a as)
  show ?case
  proof (cases "P a")
    case True
    with Cons.prems show ?thesis by simp
  next
    case False
    with Cons.prems obtain k where k: "findIndex P as = Some k" "i = Suc k"
      by (auto split: option.splits)
    from Cons.IH[OF k(1)] False k(2) show ?thesis
      by (auto simp: less_Suc_eq_0_disj)
  qed
qed

lemma findIndex_None: "findIndex P xs = None \<longleftrightarrow> (\<forall>x \<in> set xs. \<not> P x)"
  by (induction xs) (auto split: option.splits)

lemma findIndex_update_same:
  "findIndex P xs = Some i \<Longrightarrow> P y \<Longrightarrow> findIndex P (xs[i := y]) = Some i"
proof (induction xs arbitrary: i)
  case Nil
  then show ?case by simp
next
  case (Cons a as)
  then show ?case
    by (cases "P a") (auto split: option.splits)
qed


subsection \<open>Sequences of operations\<close>

lemma saveUser_offline:
  "isOfflineMode st \<Longrightarrow> saveUser u out outr st = st\<lparr>ls_users := Some (stored_users st @ [u])\<rparr>"
  by (simp add: saveUser_def safeFetch_offline getStoredUsers_offline getStoredUsers_fallback_eq)

lemma updateUser_offline:
  "isOfflineMode st \<Longrightarrow> updateUser u out outr st =
     (case findIndex (\<lambda>v. u_id v = u_id u) (stored_users st) of
        None \<Rightarrow> st\<lparr>ls_users := Some (stored_users st)\<rparr>
      | Some i \<Rightarrow> st\<lparr>ls_users := Some ((stored_users st)[i := u])\<rparr>)"
  by (simp add: updateUser_def safeFetch_offline getStoredUsers_offline getStoredUsers_fallback_eq
      split: option.splits)

lemma saveSeats_offline:
  "isOfflineMode st \<Longrightarrow> saveSeats ss out st = st\<lparr>ls_seats := Some ss\<rparr>"
  by (simp add: saveSeats_def safeFetch_offline)

lemma exec_offline:
  assumes "isOfflineMode st"
  shows "isOfflineMode (snd (exec opn r st)) \<and> fetched (snd (exec opn r st)) = fetched st \<and>
         exec opn r' st = exec opn r st"
  using assms
  by (cases opn)
     (simp_all add: getStoredUsers_offline getStoredSeats_offline getStoredBookings_offline
        getStoredUsers_fallback_eq getStoredSeats_fallback_eq saveUser_offline updateUser_offline
        saveSeats_offline createBooking_offline cancelBooking_offline toggleSeatMaintenance_offline
        getSession_def setSession_def clearSession_def split: option.splits)

lemma run_offline:
  "isOfflineMode st \<Longrightarrow> map fst ops' = map fst ops \<Longrightarrow>
     isOfflineMode (snd (run ops st)) \<and> fetched (snd (run ops st)) = fetched st \<and>
     run ops' st = run ops st"
proof (induction ops arbitrary: st ops')
  case Nil
  then show ?case by simp
next
  case (Cons c ops)
  obtain opn r where c: "c = (opn, r)" by (cases c)
  from Cons.prems(2) c obtain r' ops0 where o': "ops' = (opn, r') # ops0" "map fst ops0 = map fst ops"
    by (cases ops') auto
  obtain res st1 where e: "exec opn r st = (res, st1)" by (cases "exec opn r st")
  from exec_offline[OF Cons.prems(1), of opn r r'] e
  have st1: "isOfflineMode st1" "fetched st1 = fetched st" "exec opn r' st = (res, st1)"
    by simp_all
  from Cons.IH[OF st1(1) o'(2)] st1 show ?case
    by (auto simp: c o' e split: prod.splits)
qed

lemma safeFetch_fails:
  "fetch_fails out \<Longrightarrow>
     fst (safeFetch req out st) = Inl () \<and> isOfflineMode (snd (safeFetch req out st))"
  by (cases out) (simp_all add: safeFetch_def settle_def)

text \<open>
  Claim C2. A call of the remote backend that fails (a network failure, the abort of the
  timeout, or a response with status 500 or more) makes \<^verbatim>\<open>safeFetch\<close> throw and sets the
  offline flag. From a state in which the flag is set, every sequence of store operations
  leaves it set, calls \<^verbatim>\<open>fetch\<close> not once (the log of requests does not grow), and
  returns the same values and the same state whatever the remote backend would have
  answered: the operations are served by the local store alone.
\<close>

theorem sticky_offline:
  "(fetch_fails out \<longrightarrow>
      fst (safeFetch req out st) = Inl () \<and> isOfflineMode (snd (safeFetch req out st))) \<and>
   (isOfflineMode st \<longrightarrow>
      isOfflineMode (snd (run ops st)) \<and> fetched (snd (run ops st)) = fetched st \<and>
      (\<forall>ops'. map fst ops' = map fst ops \<longrightarrow> run ops' st = run ops st))"
  using safeFetch_fails[of out req st] run_offline[of st _ ops] by blast

text \<open>
  Claim C7. In offline mode, when the stored bookings contain the given id,
  \<^verbatim>\<open>cancelBooking\<close> sets the status of the first booking with that id to CANCELLED and
  changes nothing else in the collection; applying it a second time gives the state that
  one application gives.
\<close>

theorem cancelBooking_idempotent:
  assumes "isOfflineMode st" and "bid \<in> b_id ` set (stored_bookings st)"
  shows "(\<exists>i < length (stored_bookings st).
            b_id (stored_bookings st ! i) = bid \<and>
            (\<forall>j < i. b_id (stored_bookings st ! j) \<noteq> bid) \<and>
            stored_bookings (cancelBooking bid out outr st) =
              (stored_bookings st)[i := (stored_bookings st ! i)\<lparr>b_status := CANCELLED\<rparr>]) \<and>
         cancelBooking bid out' outr' (cancelBooking bid out outr st) = cancelBooking bid out outr st"
proof -
  let ?bs = "stored_bookings st"
  from assms(2) have "findIndex (\<lambda>b. b_id b = bid) ?bs \<noteq> None"
    by (auto simp: findIndex_None)
  then obtain i where i: "findIndex (\<lambda>b. b_id b = bid) ?bs = Some i" by blast
  note fi = findIndex_Some[OF i]
  let ?c = "(?bs ! i)\<lparr>b_status := CANCELLED\<rparr>"
  have one: "cancelBooking bid out outr st = st\<lparr>ls_bookings := Some (?bs[i := ?c])\<rparr>"
    using assms(1) i by (simp add: cancelBooking_offline)
  have i': "findIndex (\<lambda>b. b_id b = bid) (?bs[i := ?c]) = Some i"
    using fi by (intro findIndex_update_same[OF i]) simp
  have off: "isOfflineMode (st\<lparr>ls_bookings := Some (?bs[i := ?c])\<rparr>)"
    using assms(1) by simp
  have two: "cancelBooking bid out' outr' (cancelBooking bid out outr st) = cancelBooking bid out outr st"
    unfolding one using fi by (simp add: cancelBooking_offline[OF off] i')
  from fi one two show ?thesis by auto
qed

text \<open>
  Claim C10. In offline mode, \<^verbatim>\<open>toggleSeatMaintenance\<close> on an id that the stored seats
  contain negates \<^verbatim>\<open>isMaintenance\<close> of the first seat with that id and leaves every other
  field and every other seat as it was; two applications give back the original
  collection; on an id that no stored seat has, the collection is unchanged.
\<close>

theorem toggleSeatMaintenance_involution:
  assumes "isOfflineMode st"
  shows "(sid \<in> s_id ` set (stored_seats st) \<longrightarrow>
            (\<exists>i < length (stored_seats st).
               s_id (stored_seats st ! i) = sid \<and>
               (\<forall>j < i. s_id (stored_seats st ! j) \<noteq> sid) \<and>
               stored_seats (toggleSeatMaintenance sid out outr st) =
                 (stored_seats st)[i := (stored_seats st ! i)
                    \<lparr>s_isMaintenance := \<not> s_isMaintenance (stored_seats st ! i)\<rparr>])) \<and>
         stored_seats (toggleSeatMaintenance sid out' outr' (toggleSeatMaintenance sid out outr st))
           = stored_seats st \<and>
         (sid \<notin> s_id ` set (stored_seats st) \<longrightarrow>
            stored_seats (toggleSeatMaintenance sid out outr st) = stored_seats st)"
proof (cases "findIndex (\<lambda>s. s_id s = sid) (stored_seats st)")
  case None
  then have notin: "sid \<notin> s_id ` set (stored_seats st)"
    by (auto simp: findIndex_None)
  have one: "toggleSeatMaintenance sid out outr st = st\<lparr>ls_seats := Some (stored_seats st)\<rparr>"
    using assms None by (simp add: toggleSeatMaintenance_offline)
  have off: "isOfflineMode (st\<lparr>ls_seats := Some (stored_seats st)\<rparr>)" using assms by simp
  show ?thesis
    unfolding one using notin None by (simp add: toggleSeatMaintenance_offline[OF off])
next
  case (Some i)
  let ?ss = "stored_seats st"
  let ?t = "(?ss ! i)\<lparr>s_isMaintenance := \<not> s_isMaintenance (?ss ! i)\<rparr>"
  note fi = findIndex_Some[OF Some]
  have one: "toggleSeatMaintenance sid out outr st = st\<lparr>ls_seats := Some (?ss[i := ?t])\<rparr>"
    using assms Some by (simp add: toggleSeatMaintenance_offline)
  have i': "findIndex (\<lambda>s. s_id s = sid) (?ss[i := ?t]) = Some i"
    using fi by (intro findIndex_update_same[OF Some]) simp
  have off: "isOfflineMode (st\<lparr>ls_seats := Some (?ss[i := ?t])\<rparr>)" using assms by simp
  have two: "stored_seats (toggleSeatMaintenance sid out' outr' (toggleSeatMaintenance sid out outr st)) = ?ss"
    unfolding one using fi by (simp add: toggleSeatMaintenance_offline[OF off] i')
  have "sid \<in> s_id ` set ?ss" using fi by force
  with fi one two show ?thesis by auto
qed

section \<open>Properties of the bookings\<close>

subsection \<open>Uniqueness among the ACTIVE bookings\<close>

lemma active_unique_Nil [simp]: "active_unique key []"
  by (simp add: active_unique_def)

lemma active_unique_snoc:
  "active_unique key (bs @ [b]) \<longleftrightarrow>
     active_unique key bs \<and>
     (b_status b = ACTIVE \<longrightarrow> (\<forall>x \<in> set bs. b_status x = ACTIVE \<longrightarrow> key x \<noteq> key b))"
  (is "?L \<longleftrightarrow> ?A \<and> ?B")
proof (intro iffI conjI)
  assume L: ?L
  show ?A
    unfolding active_unique_def
  proof (intro allI impI)
    fix i j
    assume "i < length bs" "j < length bs"
      and "i \<noteq> j \<and> b_status (bs ! i) = ACTIVE \<and> b_status (bs ! j) = ACTIVE"
    with L[unfolded active_unique_def, rule_format, of i j]
    show "key (bs ! i) \<noteq> key (bs ! j)"
      by (simp add: nth_append)
  qed
  show ?B
  proof (intro impI ballI)
    fix x
    assume act: "b_status b = ACTIVE" and x: "x \<in> set bs" and xa: "b_status x = ACTIVE"
    from x obtain i where i: "i < length bs" "bs ! i = x"
      by (auto simp: in_set_conv_nth)
    with L[unfolded active_unique_def, rule_format, of i "length bs"] act xa
    show "key x \<noteq> key b"
      by (simp add: nth_append)
  qed
next
  assume R: "?A \<and> ?B"
  show ?L
    unfolding active_unique_def
  proof (intro allI impI)
    fix i j
    assume ij: "i < length (bs @ [b])" "j < length (bs @ [b])"
      and h: "i \<noteq> j \<and> b_status ((bs @ [b]) ! i) = ACTIVE \<and> b_status ((bs @ [b]) ! j) = ACTIVE"
    consider "i < length bs" "j < length bs" | "i < length bs" "j = length bs"
      | "i = length bs" "j < length bs"
      using ij h by (cases "i < length bs"; cases "j < length bs") auto
    then show "key ((bs @ [b]) ! i) \<noteq> key ((bs @ [b]) ! j)"
    proof cases
      case 1
      with R[THEN conjunct1, unfolded active_unique_def, rule_format, of i j] h
      show ?thesis by (simp add: nth_append)
    next
      case 2
      with h have "b_status b = ACTIVE" "b_status (bs ! i) = ACTIVE" by (simp_all add: nth_append)
      moreover have "bs ! i \<in> set bs" using 2 by simp
      ultimately have "key (bs ! i) \<noteq> key b" using R by blast
      with 2 show ?thesis by (simp add: nth_append)
    next
      case 3
      with h have "b_status b = ACTIVE" "b_status (bs ! j) = ACTIVE" by (simp_all add: nth_append)
      moreover have "bs ! j \<in> set bs" using 3 by simp
      ultimately have "key (bs ! j) \<noteq> key b" using R by blast
      with 3 show ?thesis by (auto simp: nth_append)
    qed
  qed
qed

lemma active_unique_cancel:
  assumes "active_unique key bs"
  shows "active_unique key (bs[i := (bs ! i)\<lparr>b_status := CANCELLED\<rparr>])"
  unfolding active_unique_def
proof (intro allI impI)
  let ?cs = "bs[i := (bs ! i)\<lparr>b_status := CANCELLED\<rparr>]"
  fix k j
  assume kj: "k < length ?cs" "j < length ?cs"
    and h: "k \<noteq> j \<and> b_status (?cs ! k) = ACTIVE \<and> b_status (?cs ! j) = ACTIVE"
  from kj h have "k \<noteq> i" "j \<noteq> i"
    by (auto simp: nth_list_update)
  with kj h assms[unfolded active_unique_def, rule_format, of k j]
  show "key (?cs ! k) \<noteq> key (?cs ! j)"
    by simp
qed





subsection \<open>The student flow\<close>

lemma stored_bookings_ls_seats [simp]:
  "stored_bookings (st\<lparr>ls_seats := x\<rparr>) = stored_bookings st"
  by (simp add: stored_bookings_def getStoredBookings_fallback_def split: option.splits)

lemma loadData_offline:
  "isOfflineMode st \<Longrightarrow>
     loadData r d st =
       (d\<lparr>sd_seats := stored_seats st, sd_bookings := stored_bookings st, sd_isLoading := False\<rparr>,
        st\<lparr>ls_seats := Some (stored_seats st)\<rparr>)"
  by (simp add: loadData_def getStoredSeats_finish_def getStoredBookings_finish_def
      getStoredSeats_fallback_eq getStoredBookings_fallback_def stored_bookings_def
      split: option.splits)

lemma hasConflict_iff:
  "hasConflict d \<longleftrightarrow>
     (\<exists>x \<in> set (sd_bookings d). b_status x = ACTIVE \<and>
        (b_userId x, b_date x, b_startTime x) = (u_id (sd_user d), sd_selectedDate d, sd_selectedTime d))"
  by (auto simp: hasConflict_def list_ex_iff)

lemma loadData_inv:
  "isOfflineMode st \<Longrightarrow> user_unique (stored_bookings st) \<Longrightarrow> flow_inv (loadData r d st)"
  by (simp add: loadData_offline flow_inv_def)

lemma handleBook_inv:
  assumes "flow_inv (d, st)"
  shows "flow_inv (handleBook nowId nowTs r d st)"
proof -
  from assms have off: "isOfflineMode st" and sync: "sd_bookings d = stored_bookings st"
    and uu: "user_unique (stored_bookings st)"
    by (simp_all add: flow_inv_def)
  show ?thesis
  proof (cases "sd_selectedSeat d")
    case None
    with assms show ?thesis by (simp add: handleBook_def)
  next
    case (Some seat)
    show ?thesis
    proof (cases "sd_selectedTime d = '''' \<or> hasConflict d \<or> endTimeOf (sd_selectedTime d) = None")
      case True
      with Some assms show ?thesis
        by (auto simp: handleBook_def flow_inv_def showToast_def)
    next
      case False
      then obtain e where e: "endTimeOf (sd_selectedTime d) = Some e" by auto
      let ?b = "\<lparr>b_id = ''bk-'' @ toString nowId, b_seatId = s_id seat,
                 b_userId = u_id (sd_user d), b_userName = u_name (sd_user d),
                 b_date = sd_selectedDate d, b_startTime = sd_selectedTime d,
                 b_endTime = e, b_timestamp = nowTs, b_status = ACTIVE\<rparr>"
      from False have nc: "\<not> hasConflict d" by simp
      have uu': "user_unique (stored_bookings st @ [?b])"
        using uu nc unfolding user_unique_def active_unique_snoc hasConflict_iff sync
        by auto
      show ?thesis
      proof (cases "isTaken (stored_bookings st) ?b")
        case True
        with False Some e off sync uu show ?thesis
          by (simp add: handleBook_def createBooking_offline flow_inv_def showToast_def Let_def)
      next
        case nt: False
        from False Some e nt off show ?thesis
          using uu'
          by (simp add: handleBook_def createBooking_offline loadData_offline
              flow_inv_def showToast_def Let_def)
      qed
    qed
  qed
qed

lemma handleCancel_inv:
  assumes "flow_inv (d, st)"
  shows "flow_inv (handleCancel bid r d st)"
proof -
  from assms have off: "isOfflineMode st" and uu: "user_unique (stored_bookings st)"
    by (simp_all add: flow_inv_def)
  let ?st1 = "cancelBooking bid (r_write r) (r_bookings r) st"
  have "isOfflineMode ?st1 \<and> user_unique (stored_bookings ?st1)"
    using off uu
    by (auto simp: cancelBooking_offline user_unique_def active_unique_cancel split: option.splits)
  then show ?thesis
    by (simp add: handleCancel_def loadData_offline flow_inv_def showToast_def)
qed

lemma sd_step_inv: "flow_inv c \<Longrightarrow> flow_inv (sd_step e c)"
proof (cases c)
  case (Pair d st)
  assume "flow_inv c"
  with Pair have I: "flow_inv (d, st)" by simp
  show ?thesis
  proof (cases e)
    case (SwitchTab r)
    with I Pair show ?thesis by (simp add: flow_inv_def loadData_offline)
  next
    case (Book n1 n2 r)
    with handleBook_inv[OF I] Pair show ?thesis by simp
  next
    case (Cancel i r)
    with handleCancel_inv[OF I] Pair show ?thesis by simp
  qed (use I Pair in \<open>simp_all add: flow_inv_def\<close>)
qed

lemma sd_run_inv: "flow_inv c \<Longrightarrow> flow_inv (sd_run es c)"
  by (induction es arbitrary: c) (simp_all add: sd_step_inv)

lemma student_session_inv:
  assumes "isOfflineMode st" and "user_unique (stored_bookings st)"
  shows "isOfflineMode (student_session user today r es st) \<and>
         user_unique (stored_bookings (student_session user today r es st))"
proof -
  have "flow_inv (sd_run es (loadData r (dashboard_init user today) st))"
    by (intro sd_run_inv loadData_inv assms)
  then show ?thesis
    by (simp add: student_session_def flow_inv_def split: prod.splits)
qed

text \<open>
  Claim C3, for dashboards that check the bookings of the local store. In offline mode,
  starting from stored bookings in which no user has two ACTIVE records for the same
  (date, startTime), every sequence of student sessions (each a dashboard that loads the
  store when it mounts, followed by any selections, tab switches, bookings through
  \<^verbatim>\<open>handleBook\<close> and cancellations) leaves stored bookings with at most one ACTIVE record
  per (userId, date, startTime).
\<close>

theorem student_flow_user_unique:
  "isOfflineMode st \<Longrightarrow> user_unique (stored_bookings st) \<Longrightarrow>
     user_unique (stored_bookings (student_sessions ss st))"
proof (induction ss arbitrary: st)
  case Nil
  then show ?case by simp
next
  case (Cons s ss)
  obtain user today r es where s: "s = (user, today, r, es)" by (cases s)
  from student_session_inv[OF Cons.prems, of user today r es] Cons.IH
  show ?case by (simp add: s)
qed

subsection \<open>Time slots\<close>

text \<open>The slot domain: twelve hourly slots, starting at 08:00 up to 19:00.\<close>

lemma slot_hours: "map slot_hourInt ALL_TIME_SLOTS = [8, 9, 10, 11, 12, 13, 14, 15, 16, 17, 18, 19]"
  by code_simp

lemma slot_values:
  "map slot_value ALL_TIME_SLOTS =
     [''08:00'', ''09:00'', ''10:00'', ''11:00'', ''12:00'', ''13:00'',
      ''14:00'', ''15:00'', ''16:00'', ''17:00'', ''18:00'', ''19:00'']"
  by code_simp

lemma slot_labels:
  "map slot_label ALL_TIME_SLOTS =
     [''8 AM - 9 AM'', ''9 AM - 10 AM'', ''10 AM - 11 AM'', ''11 AM - 12 PM'', ''12 PM - 1 PM'', ''1 PM - 2 PM'',
      ''2 PM - 3 PM'', ''3 PM - 4 PM'', ''4 PM - 5 PM'', ''5 PM - 6 PM'', ''6 PM - 7 PM'', ''7 PM - 8 PM'']"
  by code_simp

text \<open>
  Midnight UTC of a day lies in that same day for a host at UTC or east of it, and in the
  day before for a host west of UTC. So east of UTC \<^verbatim>\<open>isToday\<close> holds exactly for the
  current calendar day, and west of UTC exactly for the day after it.
\<close>

lemma localDay_dateOnly_east:
  assumes "0 \<le> tz" "tz < 1440"
  shows "localDay tz (dateOnly day) = day"
proof -
  have "0 \<le> tz * 60000" "tz * 60000 < 86400000" using assms by simp_all
  then have "(day * 86400000 + tz * 60000) div 86400000 = day"
    by (simp add: div_pos_pos_trivial)
  then show ?thesis by (simp add: localDay_def dateOnly_def msPerDay_def msPerMinute_def)
qed

lemma localDay_dateOnly_west:
  assumes "tz < 0" "-1440 \<le> tz"
  shows "localDay tz (dateOnly day) = day - 1"
proof -
  have "day * 86400000 + tz * 60000 = (day - 1) * 86400000 + (86400000 + tz * 60000)"
    by (simp add: algebra_simps)
  moreover have "0 \<le> 86400000 + tz * 60000" "86400000 + tz * 60000 < 86400000"
    using assms by simp_all
  ultimately have "(day * 86400000 + tz * 60000) div 86400000 = day - 1"
    by (simp add: div_pos_pos_trivial)
  then show ?thesis by (simp add: localDay_def dateOnly_def msPerDay_def msPerMinute_def)
qed

lemma getAvailableTimeSlots_east:
  assumes "0 \<le> tz" "tz < 1440"
  shows "getAvailableTimeSlots tz day now =
           (if day = localDay tz now
            then filter (\<lambda>slot. slot_hourInt slot > getHours tz now) ALL_TIME_SLOTS
            else ALL_TIME_SLOTS)"
  by (simp add: getAvailableTimeSlots_def isSameDay_def localDay_dateOnly_east[OF assms])

lemma getAvailableTimeSlots_west:
  assumes "tz < 0" "-1440 \<le> tz"
  shows "getAvailableTimeSlots tz day now =
           (if day = localDay tz now + 1
            then filter (\<lambda>slot. slot_hourInt slot > getHours tz now) ALL_TIME_SLOTS
            else ALL_TIME_SLOTS)"
  by (auto simp add: getAvailableTimeSlots_def isSameDay_def localDay_dateOnly_west[OF assms])

text \<open>
  Claim C4, at a host west of UTC. The zone is UTC-05:00 and the clock reads
  2024-05-10 15:00 local time (20:00 UTC). For the selected date 2024-05-10, which is the
  current calendar day, \<^verbatim>\<open>getAvailableTimeSlots\<close> returns all twelve slots, the slots from
  08:00 to 15:00 included; for 2024-05-11, the next day, it returns only the slots after
  15:00. The claim asks for the slots after 15:00 on the current day and for all twelve
  on any other day.
\<close>

theorem getAvailableTimeSlots_today_west_of_UTC:
  "localDay (-300) 1715371200000 = 19853 \<and> getHours (-300) 1715371200000 = 15 \<and>
   map slot_hourInt (getAvailableTimeSlots (-300) 19853 1715371200000)
     = [8, 9, 10, 11, 12, 13, 14, 15, 16, 17, 18, 19] \<and>
   map slot_hourInt (getAvailableTimeSlots (-300) 19854 1715371200000) = [16, 17, 18, 19]"
  by code_simp


section \<open>Properties of the authentication form\<close>

text \<open>The test of the email pattern, read as the regular expression reads: some text, an
  at sign, some text, a dot, some text, all of it free of white space and of further at signs.\<close>

lemma email_char_dot: "email_char (CHR ''.'')"
  by (simp add: email_char_def is_space_def)

lemma emailRegex_test_iff:
  "emailRegex_test s \<longleftrightarrow>
     (\<exists>a b c. s = a @ ''@'' @ b @ ''.'' @ c \<and> a \<noteq> [] \<and> b \<noteq> [] \<and> c \<noteq> [] \<and>
        list_all email_char a \<and> list_all email_char b \<and> list_all email_char c)"
  (is "?L \<longleftrightarrow> ?R")
proof
  assume L: ?L
  let ?a = "takeWhile (\<lambda>c. c \<noteq> CHR ''@'') s"
  let ?rest = "dropWhile (\<lambda>c. c \<noteq> CHR ''@'') s"
  from L have a: "?a \<noteq> []" "list_all email_char ?a"
    by (simp_all add: emailRegex_test_def Let_def)
  from L obtain at d where r: "?rest = at # d" and d: "list_all email_char d"
    and dot: "CHR ''.'' \<in> set (tl (butlast d))"
    by (auto simp: emailRegex_test_def Let_def split: list.splits)
  have at: "at = CHR ''@''"
    using hd_dropWhile[of "\<lambda>c. c \<noteq> CHR ''@''" s] r by simp
  from dot obtain p q where pq: "tl (butlast d) = p @ CHR ''.'' # q"
    by (auto dest: split_list)
  then have "butlast d \<noteq> []" by auto
  then have dne: "d \<noteq> []" by auto
  from pq \<open>butlast d \<noteq> []\<close> have bd: "butlast d = hd (butlast d) # p @ CHR ''.'' # q"
    by (cases "butlast d") auto
  have dd: "d = (hd (butlast d) # p) @ ''.'' @ (q @ [last d])"
    using append_butlast_last_id[OF dne] bd by (metis append_Cons append_Nil append_assoc)
  have s: "s = ?a @ ''@'' @ (hd (butlast d) # p) @ ''.'' @ (q @ [last d])"
    using takeWhile_dropWhile_id[of "\<lambda>c. c \<noteq> CHR ''@''" s] r at dd by (metis append_Cons append_Nil)
  from d dd have "list_all email_char (hd (butlast d) # p)" "list_all email_char (q @ [last d])"
    by (metis list_all_append)+
  with a s show ?R by blast
next
  assume ?R
  then obtain a b c where s: "s = a @ ''@'' @ b @ ''.'' @ c" and ne: "a \<noteq> []" "b \<noteq> []" "c \<noteq> []"
    and all: "list_all email_char a" "list_all email_char b" "list_all email_char c"
    by blast
  from all(1) have noat: "\<forall>x \<in> set a. x \<noteq> CHR ''@''"
    by (auto simp: list_all_iff email_char_def)
  have tw: "takeWhile (\<lambda>c. c \<noteq> CHR ''@'') s = a"
    unfolding s using noat by (simp add: takeWhile_append2)
  have dw: "dropWhile (\<lambda>c. c \<noteq> CHR ''@'') s = CHR ''@'' # (b @ ''.'' @ c)"
    unfolding s using noat by (simp add: dropWhile_append2)
  have bl: "butlast (b @ ''.'' @ c) = b @ CHR ''.'' # butlast c"
    using ne(3) by (simp add: butlast_append)
  have "CHR ''.'' \<in> set (tl (butlast (b @ ''.'' @ c)))"
    unfolding bl using ne(2) by (cases b) auto
  moreover have "list_all email_char (b @ ''.'' @ c)"
    using all email_char_dot by simp
  ultimately show ?L
    using ne(1) all(1) by (simp add: emailRegex_test_def Let_def tw dw del: append.simps)
qed

lemma getStoredUsers_local:
  "stored_users (snd (getStoredUsers out st)) = stored_users st \<and>
   fetched (snd (getStoredUsers out st)) =
     (if isOfflineMode st then fetched st else fetched st @ [users_request])"
proof (cases "isOfflineMode st")
  case True
  then show ?thesis
    by (simp add: getStoredUsers_offline getStoredUsers_fallback_eq)
next
  case False
  have su: "\<And>s f b. stored_users (s\<lparr>fetched := f, isOfflineMode := b\<rparr>) = stored_users s"
    "\<And>s f. stored_users (s\<lparr>fetched := f\<rparr>) = stored_users s"
    by (simp_all add: stored_users_def getStoredUsers_fallback_def split: option.splits)
  from False show ?thesis
    by (cases out)
       (auto simp: getStoredUsers_def safeFetch_def settle_def getStoredUsers_finish_def
          getStoredUsers_fallback_eq su split: option.splits)
qed

lemma find_unique_email:
  assumes "distinct (map u_email users)" "u \<in> set users" "P u"
    and "\<And>v. P v \<Longrightarrow> u_email v = u_email u"
  shows "find P users = Some u"
proof (cases "find P users")
  case None
  with assms(2,3) show ?thesis by (auto simp: find_None_iff)
next
  case (Some v)
  then have v: "v \<in> set users" "P v"
    by (auto simp: find_Some_iff)
  from assms(1) have "inj_on u_email (set users)" by (simp add: distinct_map)
  with v assms(2,4) have "v = u" by (auto dest: inj_onD)
  with Some show ?thesis by simp
qed

text \<open>
  Claim C5. A registration whose form passes validation and whose email is the email of
  a user in the collection that \<^verbatim>\<open>getStoredUsers\<close> returns ends with the duplicate-account
  error, calls neither \<^verbatim>\<open>onLogin\<close> nor \<^verbatim>\<open>saveUser\<close>, leaves the users of the local store
  as they were and sends the remote backend nothing but the read of the users.
\<close>

theorem register_duplicate_email:
  assumes "\<not> a_isLogin a" and "validateForm a = None"
    and "\<exists>u \<in> set (fst (getStoredUsers (r_users r) st)). u_email u = f_email (a_formData a)"
  shows "handleSubmit now r a st =
           (a\<lparr>a_error := duplicate_message, a_isLoading := False\<rparr>, None,
            snd (getStoredUsers (r_users r) st)) \<and>
         stored_users (snd (getStoredUsers (r_users r) st)) = stored_users st \<and>
         fetched (snd (getStoredUsers (r_users r) st)) =
           (if isOfflineMode st then fetched st else fetched st @ [users_request])"
proof -
  obtain users st1 where g: "getStoredUsers (r_users r) st = (users, st1)"
    by (cases "getStoredUsers (r_users r) st")
  with assms(3) have "find (\<lambda>u. u_email u = f_email (a_formData a)) users \<noteq> None"
    by (auto simp: find_None_iff)
  then obtain e where "find (\<lambda>u. u_email u = f_email (a_formData a)) users = Some e" by blast
  with assms(1,2) g have "handleSubmit now r a st =
      (a\<lparr>a_error := duplicate_message, a_isLoading := False\<rparr>, None, st1)"
    by (simp add: handleSubmit_def Let_def)
  with g getStoredUsers_local[of "r_users r" st] show ?thesis by simp
qed

text \<open>
  With unique emails a stored user with the email and password of the form is the user
  that the scan finds.
\<close>

lemma login_blocked_distinct:
  assumes "a_isLogin a" and "validateForm a = None"
    and "getStoredUsers (r_users r) st = (users, st1)"
    and "distinct (map u_email users)"
    and "u \<in> set users" and "u_email u = f_email (a_formData a)"
    and "u_password u = Some (f_password (a_formData a))"
  shows "handleSubmit now r a st =
           (if u_isBlocked u
            then (a\<lparr>a_error := blocked_message, a_isLoading := False\<rparr>, None, st1)
            else (a\<lparr>a_error := '''', a_isLoading := True\<rparr>, Some u, st1)) \<and>
         blocked_message \<noteq> invalid_message"
proof -
  have "find (\<lambda>v. u_email v = f_email (a_formData a) \<and>
                   u_password v = Some (f_password (a_formData a))) users = Some u"
    using assms(4-7) by (intro find_unique_email) simp_all
  with assms(1-3) show ?thesis
    by (simp add: handleSubmit_def Let_def blocked_message_def invalid_message_def)
qed

lemma first_match_found:
  assumes "i < length xs" "P (xs ! i)" "\<forall>j < i. \<not> P (xs ! j)"
  shows "find P xs = Some (xs ! i)"
  using assms by (auto simp: find_Some_iff)

text \<open>
  Claim C6, for the user that the scan finds. A login whose form passes validation and
  whose email and password are those of a stored user, the first such user of the
  collection, ends with the blocked-account error, and without calling \<^verbatim>\<open>onLogin\<close>, when
  that user is blocked; it calls \<^verbatim>\<open>onLogin\<close> with that user when the user is not blocked.
  The blocked-account message differs from the invalid-credentials message.
\<close>

theorem login_first_match:
  assumes "a_isLogin a" and "validateForm a = None"
    and "getStoredUsers (r_users r) st = (users, st1)"
    and "i < length users"
    and "u_email (users ! i) = f_email (a_formData a)"
    and "u_password (users ! i) = Some (f_password (a_formData a))"
    and "\<forall>j < i. \<not> (u_email (users ! j) = f_email (a_formData a) \<and>
                      u_password (users ! j) = Some (f_password (a_formData a)))"
  shows "handleSubmit now r a st =
           (if u_isBlocked (users ! i)
            then (a\<lparr>a_error := blocked_message, a_isLoading := False\<rparr>, None, st1)
            else (a\<lparr>a_error := '''', a_isLoading := True\<rparr>, Some (users ! i), st1)) \<and>
         blocked_message \<noteq> invalid_message"
proof -
  have "find (\<lambda>v. u_email v = f_email (a_formData a) \<and>
                   u_password v = Some (f_password (a_formData a))) users = Some (users ! i)"
    using assms(4-7) by (intro first_match_found) simp_all
  with assms(1-3) show ?thesis
    by (simp add: handleSubmit_def Let_def blocked_message_def invalid_message_def)
qed

section \<open>Properties of the layout editor\<close>

lemma decimal_value_toString: "decimal_value (toString n) = n"
proof (induction n rule: toString.induct)
  case (1 n)
  show ?case
  proof (cases "n < 10")
    case True
    then show ?thesis
      by (subst toString.simps) (simp add: decimal_value_def digit_def digit_val_def)
  next
    case False
    have d: "digit_val (digit (n mod 10)) = n mod 10"
      by (simp add: digit_def digit_val_def)
    from False 1 have "decimal_value (toString (n div 10)) = n div 10" by simp
    with False d show ?thesis
      by (subst toString.simps) (simp add: decimal_value_def)
  qed
qed

lemma handleEmptySlotClick_create:
  assumes "ad_isEditMode ad" "ad_selectedSeat ad = None"
  shows "handleEmptySlotClick x y now out ad st =
     (ad\<lparr>ad_seats := ad_seats ad @
            [\<lparr>s_id = ''seat-'' @ toString now, s_label = generateLabel x y, s_type = STANDARD,
              s_isMaintenance = False, s_x = x, s_y = y, s_rotation = 0\<rparr>]\<rparr>,
      saveSeats (ad_seats ad @
            [\<lparr>s_id = ''seat-'' @ toString now, s_label = generateLabel x y, s_type = STANDARD,
              s_isMaintenance = False, s_x = x, s_y = y, s_rotation = 0\<rparr>]) out st)"
  using assms by (simp add: handleEmptySlotClick_def Let_def)

lemma handleEmptySlotClick_move:
  assumes "ad_isEditMode ad" "ad_selectedSeat ad = Some sel"
  shows "handleEmptySlotClick x y now out ad st =
     (ad\<lparr>ad_seats := map (\<lambda>s. if s_id s = s_id sel
                               then s\<lparr>s_x := x, s_y := y, s_label := generateLabel x y\<rparr> else s)
                          (ad_seats ad),
         ad_selectedSeat := None\<rparr>,
      saveSeats (map (\<lambda>s. if s_id s = s_id sel
                           then s\<lparr>s_x := x, s_y := y, s_label := generateLabel x y\<rparr> else s)
                     (ad_seats ad)) out st)"
  using assms by (simp add: handleEmptySlotClick_def Let_def)

text \<open>
  Claim C8. The label of the cell (x, y) is the letter with code 'A' + y followed by
  x + 1 in decimal; (0, 0) gives A1 and (4, 2) gives C5. In edit mode a click on an empty
  cell with no seat selected appends a seat at (x, y) labelled so, and with a seat
  selected it moves the seats with the selected id to (x, y) and relabels them so.
\<close>

theorem generateLabel_from_position:
  "generateLabel 0 0 = ''A1'' \<and> generateLabel 4 2 = ''C5'' \<and>
   (y < 191 \<longrightarrow> (of_char (hd (generateLabel x y)) :: nat) = of_char (CHR ''A'') + y) \<and>
   decimal_value (tl (generateLabel x y)) = x + 1 \<and>
   (ad_isEditMode ad \<and> ad_selectedSeat ad = None \<longrightarrow>
      (\<exists>newSeat. ad_seats (fst (handleEmptySlotClick x y now out ad st)) = ad_seats ad @ [newSeat] \<and>
         s_x newSeat = x \<and> s_y newSeat = y \<and> s_label newSeat = generateLabel x y)) \<and>
   (ad_isEditMode ad \<and> ad_selectedSeat ad = Some sel \<longrightarrow>
      ad_seats (fst (handleEmptySlotClick x y now out ad st)) =
        map (\<lambda>s. if s_id s = s_id sel
                  then s\<lparr>s_x := x, s_y := y, s_label := generateLabel x y\<rparr> else s) (ad_seats ad))"
proof -
  have "generateLabel 0 0 = ''A1''" "generateLabel 4 2 = ''C5''"
    by code_simp+
  moreover have "y < 191 \<Longrightarrow> (of_char (hd (generateLabel x y)) :: nat) = of_char (CHR ''A'') + y"
    by (simp add: generateLabel_def)
  moreover have "decimal_value (tl (generateLabel x y)) = x + 1"
    by (simp add: generateLabel_def decimal_value_toString)
  ultimately show ?thesis
    by (auto simp: handleEmptySlotClick_create handleEmptySlotClick_move)
qed

lemma js_rem_nonneg: "0 \<le> a \<Longrightarrow> js_rem a 360 = a mod 360"
  by (cases "a = 0") (simp_all add: js_rem_def)

lemma handleRotateSeat_step:
  assumes "ad_selectedSeat ad = Some sel" "0 \<le> s_rotation sel"
  shows "handleRotateSeat out ad st =
     (ad\<lparr>ad_seats := map (\<lambda>s. if s_id s = s_id sel
                               then s\<lparr>s_rotation := (s_rotation sel + 90) mod 360\<rparr> else s)
                          (ad_seats ad),
         ad_selectedSeat := Some (sel\<lparr>s_rotation := (s_rotation sel + 90) mod 360\<rparr>)\<rparr>,
      saveSeats (map (\<lambda>s. if s_id s = s_id sel
                           then s\<lparr>s_rotation := (s_rotation sel + 90) mod 360\<rparr> else s)
                     (ad_seats ad)) out st)"
  using assms by (simp add: handleRotateSeat_def Let_def js_rem_nonneg)

lemma set_rotation_twice [simp]:
  "set_rotation sid r2 (set_rotation sid r1 s) = set_rotation sid r2 s"
  by (simp add: set_rotation_def)

lemma handleRotateSeat_step':
  assumes "ad_selectedSeat ad = Some sel" "0 \<le> s_rotation sel"
  shows "handleRotateSeat out ad st =
     (ad\<lparr>ad_seats := map (set_rotation (s_id sel) ((s_rotation sel + 90) mod 360)) (ad_seats ad),
         ad_selectedSeat := Some (sel\<lparr>s_rotation := (s_rotation sel + 90) mod 360\<rparr>)\<rparr>,
      saveSeats (map (set_rotation (s_id sel) ((s_rotation sel + 90) mod 360)) (ad_seats ad)) out st)"
  using assms by (simp add: handleRotateSeat_def Let_def js_rem_nonneg set_rotation_def[abs_def])

lemma rotations_general:
  "ad_selectedSeat ad = Some sel \<Longrightarrow> 0 \<le> s_rotation sel \<Longrightarrow> outs \<noteq> [] \<Longrightarrow>
   fst (rotations outs (ad, st)) =
     ad\<lparr>ad_seats := map (set_rotation (s_id sel) ((s_rotation sel + 90 * int (length outs)) mod 360))
                        (ad_seats ad),
        ad_selectedSeat :=
          Some (sel\<lparr>s_rotation := (s_rotation sel + 90 * int (length outs)) mod 360\<rparr>)\<rparr>"
proof (induction outs arbitrary: ad st sel)
  case Nil
  then show ?case by simp
next
  case (Cons out outs)
  note step = handleRotateSeat_step'[OF Cons.prems(1,2), of out st]
  show ?case
  proof (cases "outs = []")
    case True
    with step show ?thesis by simp
  next
    case False
    let ?r1 = "(s_rotation sel + 90) mod 360"
    let ?sel1 = "sel\<lparr>s_rotation := ?r1\<rparr>"
    let ?ad1 = "ad\<lparr>ad_seats := map (set_rotation (s_id sel) ?r1) (ad_seats ad),
                   ad_selectedSeat := Some ?sel1\<rparr>"
    have a: "ad_selectedSeat ?ad1 = Some ?sel1" by simp
    have b: "0 \<le> s_rotation ?sel1" by simp
    have arith: "(?r1 + 90 * int (length outs)) mod 360
                 = (s_rotation sel + 90 * int (length (out # outs))) mod 360"
      by (simp add: mod_simps algebra_simps)
    from Cons.IH[OF a b False] step show ?thesis
      by (simp add: arith[simplified] o_def)
  qed
qed

text \<open>
  Claim C9. With a seat selected whose rotation r is in the range 0 \<le> r < 360, one press
  of rotate gives the seats with the selected id the rotation (r + 90) mod 360 and changes
  no other field; four presses give them the rotation r again, so the seat list is the
  original one when the listed seat had the rotation of the selection.
\<close>

theorem rotate_four_times:
  assumes "ad_selectedSeat ad = Some sel" and "0 \<le> s_rotation sel" and "s_rotation sel < 360"
  shows "fst (handleRotateSeat out ad st) =
           ad\<lparr>ad_seats := map (\<lambda>s. if s_id s = s_id sel
                                    then s\<lparr>s_rotation := (s_rotation sel + 90) mod 360\<rparr> else s)
                               (ad_seats ad),
              ad_selectedSeat := Some (sel\<lparr>s_rotation := (s_rotation sel + 90) mod 360\<rparr>)\<rparr> \<and>
         fst (rotations [o1, o2, o3, o4] (ad, st)) =
           ad\<lparr>ad_seats := map (\<lambda>s. if s_id s = s_id sel
                                    then s\<lparr>s_rotation := s_rotation sel\<rparr> else s) (ad_seats ad)\<rparr> \<and>
         ((\<forall>s \<in> set (ad_seats ad). s_id s = s_id sel \<longrightarrow> s_rotation s = s_rotation sel) \<longrightarrow>
            fst (rotations [o1, o2, o3, o4] (ad, st)) = ad)"
proof -
  have r4: "(s_rotation sel + 90 * int (length [o1, o2, o3, o4])) mod 360 = s_rotation sel"
    using assms(2,3) by simp
  have four: "fst (rotations [o1, o2, o3, o4] (ad, st)) =
      ad\<lparr>ad_seats := map (set_rotation (s_id sel) (s_rotation sel)) (ad_seats ad)\<rparr>"
    using rotations_general[OF assms(1,2), of "[o1, o2, o3, o4]" st] assms(1)
    unfolding r4 by simp
  have same: "map (set_rotation (s_id sel) (s_rotation sel)) (ad_seats ad) = ad_seats ad"
    if "\<forall>s \<in> set (ad_seats ad). s_id s = s_id sel \<longrightarrow> s_rotation s = s_rotation sel"
    using that by (intro map_idI) (simp add: set_rotation_def)
  from four same handleRotateSeat_step[OF assms(1,2), of out st] show ?thesis
    by (auto simp: set_rotation_def[abs_def])
qed

section \<open>The theorems at concrete inputs\<close>

lemma stored_bookings_eq: "stored_bookings st = (case ls_bookings st of None \<Rightarrow> [] | Some bs \<Rightarrow> bs)"
  by (simp add: stored_bookings_def getStoredBookings_fallback_def split: option.splits)

lemma stored_seats_eq:
  "stored_seats st = (case ls_seats st of None \<Rightarrow> INITIAL_SEATS | Some ss \<Rightarrow> ss)"
  by (simp add: stored_seats_def getStoredSeats_fallback_def split: option.splits)

lemma stored_users_eq:
  "stored_users st = (case ls_users st of None \<Rightarrow> [ADMIN_USER, DEMO_STUDENT] | Some us \<Rightarrow> us)"
  by (simp add: stored_users_def getStoredUsers_fallback_def split: option.splits)

lemma active_unique_two:
  "active_unique key [a, b] \<longleftrightarrow> (b_status a = ACTIVE \<and> b_status b = ACTIVE \<longrightarrow> key a \<noteq> key b)"
  using active_unique_snoc[of key "[] @ [a]" b] active_unique_snoc[of key "[]" a] by auto


theorem sticky_offline_witness:
  "fetch_fails (Aborted :: User list fetch_outcome) \<and> \<not> isOfflineMode online_store \<and>
   isOfflineMode after_timeout \<and> fetched after_timeout = [users_request] \<and>
   isOfflineMode (snd (run (example_ops backend_up) after_timeout)) \<and>
   fetched (snd (run (example_ops backend_up) after_timeout)) = [users_request] \<and>
   run (example_ops backend_down) after_timeout = run (example_ops backend_up) after_timeout"
proof -
  have f: "fetch_fails (Aborted :: User list fetch_outcome)" by simp
  have on: "\<not> isOfflineMode online_store" by (simp add: online_store_def)
  have off: "isOfflineMode after_timeout"
    using sticky_offline[of "Aborted :: User list fetch_outcome" users_request online_store] f
    by (simp add: after_timeout_def)
  have l: "fetched after_timeout = [users_request]"
    by (simp add: after_timeout_def safeFetch_def settle_def online_store_def offline_store_def)
  have m: "map fst (example_ops backend_down) = map fst (example_ops backend_up)"
    by (simp add: example_ops_def)
  from sticky_offline[of "Aborted :: User list fetch_outcome" users_request after_timeout
      "example_ops backend_up"] off
  have a: "isOfflineMode (snd (run (example_ops backend_up) after_timeout))"
    and b: "fetched (snd (run (example_ops backend_up) after_timeout)) = fetched after_timeout"
    and c: "\<forall>ops'. map fst ops' = map fst (example_ops backend_up) \<longrightarrow>
              run ops' after_timeout = run (example_ops backend_up) after_timeout"
    by blast+
  from c m have
    "run (example_ops backend_down) after_timeout = run (example_ops backend_up) after_timeout"
    by blast
  moreover note a b
  ultimately show ?thesis using f on off l by (simp only: simp_thms)
qed

lemma slot_value_mem:
  "''10:00'' \<in> slot_value ` set ALL_TIME_SLOTS" "''11:00'' \<in> slot_value ` set ALL_TIME_SLOTS"
proof -
  have "slot_value ` set ALL_TIME_SLOTS = set (map slot_value ALL_TIME_SLOTS)" by simp
  then show "''10:00'' \<in> slot_value ` set ALL_TIME_SLOTS" "''11:00'' \<in> slot_value ` set ALL_TIME_SLOTS"
    unfolding slot_values by simp_all
qed

theorem student_flow_user_unique_witness:
  "isOfflineMode offline_store \<and> user_unique (stored_bookings offline_store) \<and>
   user_unique (stored_bookings (student_sessions [example_session] offline_store)) \<and>
   map (\<lambda>b. (b_seatId b, b_startTime b, b_status b))
       (stored_bookings (student_sessions [example_session] offline_store))
     = [(''s-l1'', ''10:00'', ACTIVE), (''s-l2'', ''11:00'', ACTIVE)]"
proof -
  have h1: "isOfflineMode offline_store" by (simp add: offline_store_def)
  have h2: "user_unique (stored_bookings offline_store)"
    by (simp add: offline_store_def user_unique_def stored_bookings_eq)
  have e: "map (\<lambda>b. (b_seatId b, b_startTime b, b_status b))
       (stored_bookings (student_sessions [example_session] offline_store))
     = [(''s-l1'', ''10:00'', ACTIVE), (''s-l2'', ''11:00'', ACTIVE)]"
    by (simp add: example_session_def student_session_def slot_value_mem
        offline_store_def dashboard_init_def loadData_offline handleBook_def
        hasConflict_def endTimeOf_def parseHHmm_def is_digit_def digit_val_def
        createBooking_offline isTaken_def stored_bookings_eq showToast_def Let_def
        example_seat_def mkSeat_def DEMO_STUDENT_def)
  from student_flow_user_unique[OF h1 h2, of "[example_session]"] h1 h2 e show ?thesis by blast
qed

lemma INITIAL_SEATS_nth: "s_id (INITIAL_SEATS ! 0) = ''s-l1''" "s_id (INITIAL_SEATS ! Suc 0) = ''s-l2''"
  by (simp_all add: INITIAL_SEATS_def mkSeat_def)

lemma after_second_tab_eval:
  "map b_userId (stored_bookings after_second_tab) = [''student-1'', ''student-1''] \<and>
   map b_seatId (stored_bookings after_second_tab) = [''s-l1'', ''s-l2''] \<and>
   map b_date (stored_bookings after_second_tab) = [''2024-05-10'', ''2024-05-10''] \<and>
   map b_startTime (stored_bookings after_second_tab) = [''10:00'', ''10:00''] \<and>
   map b_status (stored_bookings after_second_tab) = [ACTIVE, ACTIVE]"
  by (simp add: after_second_tab_def after_first_tab_def second_tab_def first_tab_def
        slot_value_mem offline_store_def dashboard_init_def loadData_offline handleBook_def
        hasConflict_def endTimeOf_def parseHHmm_def is_digit_def digit_val_def
        createBooking_offline isTaken_def stored_bookings_eq showToast_def Let_def
        INITIAL_SEATS_nth DEMO_STUDENT_def)

lemma after_backend_loss_eval:
  "map b_userId (stored_bookings after_backend_loss) = [''student-1'', ''student-1''] \<and>
   map b_seatId (stored_bookings after_backend_loss) = [''s-l1'', ''s-l2''] \<and>
   map b_date (stored_bookings after_backend_loss) = [''2024-05-10'', ''2024-05-10''] \<and>
   map b_startTime (stored_bookings after_backend_loss) = [''10:00'', ''10:00''] \<and>
   map b_status (stored_bookings after_backend_loss) = [ACTIVE, ACTIVE]"
  by (simp add: after_backend_loss_def earlier_offline_run_def student_session_def
        slot_value_mem online_store_def offline_store_def dashboard_init_def loadData_def
        settle_def backend_serving_def backend_down_def safeFetch_def
        getStoredSeats_finish_def getStoredBookings_finish_def getStoredBookings_def
        getStoredBookings_fallback_def handleBook_def createBooking_def
        hasConflict_def endTimeOf_def parseHHmm_def is_digit_def digit_val_def
        isTaken_def stored_bookings_eq showToast_def Let_def
        INITIAL_SEATS_nth DEMO_STUDENT_def example_booking_def getStoredSeats_fallback_def)

lemma not_user_unique:
  assumes "map b_userId bs = [u, u]" "map b_date bs = [d, d]" "map b_startTime bs = [t, t]"
    "map b_status bs = [ACTIVE, ACTIVE]"
  shows "\<not> user_unique bs"
proof -
  from assms(1) obtain a b where bs: "bs = [a, b]"
    by (cases bs; cases "tl bs") auto
  with assms show ?thesis
    by (simp add: user_unique_def active_unique_two)
qed

text \<open>
  Claim C3 as stated fails when the bookings that \<^verbatim>\<open>handleBook\<close> checks are not the
  bookings of the local store. With two tabs, and with a backend lost between the load
  and the booking, the student ends with two ACTIVE bookings for 2024-05-10 at 10:00 in
  the local store, on two seats, although the store had no such pair before.
\<close>

theorem student_flow_stale_bookings:
  "user_unique (stored_bookings offline_store) \<and>
   \<not> user_unique (stored_bookings after_second_tab) \<and>
   user_unique (stored_bookings earlier_offline_run) \<and>
   \<not> user_unique (stored_bookings after_backend_loss)"
proof -
  have "user_unique (stored_bookings offline_store)"
    by (simp add: offline_store_def user_unique_def stored_bookings_eq)
  moreover have "user_unique (stored_bookings earlier_offline_run)"
    using active_unique_snoc[of "\<lambda>b. (b_userId b, b_date b, b_startTime b)" "[]"]
    by (simp add: earlier_offline_run_def user_unique_def stored_bookings_eq)
  moreover have "\<not> user_unique (stored_bookings after_second_tab)"
    using after_second_tab_eval by (intro not_user_unique) blast+
  moreover have "\<not> user_unique (stored_bookings after_backend_loss)"
    using after_backend_loss_eval by (intro not_user_unique) blast+
  ultimately show ?thesis by blast
qed

theorem register_duplicate_email_witness:
  "\<not> a_isLogin register_form \<and> validateForm register_form = None \<and>
   (\<exists>u \<in> set (fst (getStoredUsers (r_users backend_down) offline_store)).
       u_email u = f_email (a_formData register_form)) \<and>
   handleSubmit 1715371200000 backend_down register_form offline_store =
     (register_form\<lparr>a_error := duplicate_message, a_isLoading := False\<rparr>, None,
      offline_store\<lparr>ls_users := Some [ADMIN_USER, DEMO_STUDENT]\<rparr>) \<and>
   stored_users (snd (snd (handleSubmit 1715371200000 backend_down register_form offline_store)))
     = stored_users offline_store"
proof -
  have h1: "\<not> a_isLogin register_form" by (simp add: register_form_def)
  have h2: "validateForm register_form = None"
    by (simp add: register_form_def validateForm_def emailRegex_test_def email_char_def
        is_space_def trim_def mobileRegex_test_def is_digit_def)
  have g: "getStoredUsers (r_users backend_down) offline_store =
      ([ADMIN_USER, DEMO_STUDENT], offline_store\<lparr>ls_users := Some [ADMIN_USER, DEMO_STUDENT]\<rparr>)"
    by (simp add: getStoredUsers_offline getStoredUsers_fallback_def offline_store_def)
  have h3: "\<exists>u \<in> set (fst (getStoredUsers (r_users backend_down) offline_store)).
       u_email u = f_email (a_formData register_form)"
    by (simp add: g register_form_def DEMO_STUDENT_def)
  from register_duplicate_email[OF h1 h2 h3, of 1715371200000] h1 h2 h3 show ?thesis
    by (simp add: g)
qed

theorem login_first_match_witness:
  "a_isLogin login_form \<and> validateForm login_form = None \<and>
   getStoredUsers (r_users backend_down) blocked_store =
     ([ADMIN_USER, DEMO_STUDENT\<lparr>u_isBlocked := True\<rparr>], blocked_store) \<and>
   handleSubmit 0 backend_down login_form blocked_store =
     (login_form\<lparr>a_error := blocked_message, a_isLoading := False\<rparr>, None, blocked_store) \<and>
   handleSubmit 0 backend_down login_form offline_store =
     (login_form\<lparr>a_error := '''', a_isLoading := True\<rparr>, Some DEMO_STUDENT,
      offline_store\<lparr>ls_users := Some [ADMIN_USER, DEMO_STUDENT]\<rparr>)"
proof -
  let ?b = "DEMO_STUDENT\<lparr>u_isBlocked := True\<rparr>"
  have h1: "a_isLogin login_form" by (simp add: login_form_def)
  have h2: "validateForm login_form = None"
    by (simp add: login_form_def validateForm_def emailRegex_test_def email_char_def is_space_def)
  have g: "getStoredUsers (r_users backend_down) blocked_store = ([ADMIN_USER, ?b], blocked_store)"
    by (simp add: getStoredUsers_offline getStoredUsers_fallback_def offline_store_def
        blocked_store_def)
  have g': "getStoredUsers (r_users backend_down) offline_store =
      ([ADMIN_USER, DEMO_STUDENT], offline_store\<lparr>ls_users := Some [ADMIN_USER, DEMO_STUDENT]\<rparr>)"
    by (simp add: getStoredUsers_offline getStoredUsers_fallback_def offline_store_def)
  have l: "Suc 0 < length [ADMIN_USER, ?b]" "Suc 0 < length [ADMIN_USER, DEMO_STUDENT]" by simp_all
  have m: "u_email ([ADMIN_USER, ?b] ! Suc 0) = f_email (a_formData login_form)"
    "u_password ([ADMIN_USER, ?b] ! Suc 0) = Some (f_password (a_formData login_form))"
    "u_email ([ADMIN_USER, DEMO_STUDENT] ! Suc 0) = f_email (a_formData login_form)"
    "u_password ([ADMIN_USER, DEMO_STUDENT] ! Suc 0) = Some (f_password (a_formData login_form))"
    by (simp_all add: DEMO_STUDENT_def login_form_def)
  have f: "\<forall>j < Suc 0. \<not> (u_email ([ADMIN_USER, ?b] ! j) = f_email (a_formData login_form) \<and>
              u_password ([ADMIN_USER, ?b] ! j) = Some (f_password (a_formData login_form)))"
    "\<forall>j < Suc 0. \<not> (u_email ([ADMIN_USER, DEMO_STUDENT] ! j) = f_email (a_formData login_form) \<and>
              u_password ([ADMIN_USER, DEMO_STUDENT] ! j) = Some (f_password (a_formData login_form)))"
    by (simp_all add: ADMIN_USER_def login_form_def)
  have "handleSubmit 0 backend_down login_form blocked_store =
     (login_form\<lparr>a_error := blocked_message, a_isLoading := False\<rparr>, None, blocked_store)"
    using login_first_match[OF h1 h2 g l(1) m(1,2) f(1), of 0] by simp
  moreover have "handleSubmit 0 backend_down login_form offline_store =
     (login_form\<lparr>a_error := '''', a_isLoading := True\<rparr>, Some DEMO_STUDENT,
      offline_store\<lparr>ls_users := Some [ADMIN_USER, DEMO_STUDENT]\<rparr>)"
    using login_first_match[OF h1 h2 g' l(2) m(3,4) f(2), of 0]
    by (simp add: DEMO_STUDENT_def)
  ultimately show ?thesis using h1 h2 g by (simp only: simp_thms)
qed

lemma second_john_valid: "validateForm second_john_form = None"
  by (simp add: second_john_form_def validateForm_def emailRegex_test_def email_char_def
      is_space_def trim_def mobileRegex_test_def is_digit_def)

lemma toString_7: "toString 7 = ''7''"
  by code_simp

lemma after_second_registration_eval:
  "after_second_registration =
     \<lparr>isOfflineMode = True,
      ls_users = Some [ADMIN_USER, DEMO_STUDENT, DEMO_STUDENT\<lparr>u_id := ''user-7''\<rparr>],
      ls_seats = None, ls_bookings = None, ls_current_user = None,
      fetched = [users_request, (''POST'', API_URL @ ''/users'')]\<rparr>"
  by (simp add: after_second_registration_def handleSubmit_def second_john_valid Let_def)
     (simp add: second_john_form_def backend_lost_on_post_def online_store_def offline_store_def
      getStoredUsers_def safeFetch_def settle_def getStoredUsers_finish_def saveUser_def
      getStoredUsers_fallback_def toString_7 DEMO_STUDENT_def Let_def)

lemma duplicate_blocked_store_users:
  "stored_users duplicate_blocked_store =
     [ADMIN_USER, DEMO_STUDENT, DEMO_STUDENT\<lparr>u_id := ''user-7'', u_isBlocked := True\<rparr>]"
  by (simp add: duplicate_blocked_store_def after_second_registration_eval stored_users_eq
      updateUser_offline)
     (simp add: ADMIN_USER_def DEMO_STUDENT_def)

lemma duplicate_blocked_store_offline: "isOfflineMode duplicate_blocked_store"
  by (simp add: duplicate_blocked_store_def after_second_registration_eval stored_users_eq
      updateUser_offline split: option.splits)

text \<open>
  Claim C6 as stated fails on a collection in which two users share an email. After the
  second registration and the block, the third stored user has the email and password of
  the login form and is blocked, and the login succeeds as the second stored user, the
  first with those credentials.
\<close>

theorem login_blocked_duplicate_email:
  "u_email (stored_users duplicate_blocked_store ! 2) = f_email (a_formData login_form) \<and>
   u_password (stored_users duplicate_blocked_store ! 2) = Some (f_password (a_formData login_form)) \<and>
   u_isBlocked (stored_users duplicate_blocked_store ! 2) \<and>
   fst (handleSubmit 0 backend_down login_form duplicate_blocked_store) =
     login_form\<lparr>a_error := '''', a_isLoading := True\<rparr> \<and>
   fst (snd (handleSubmit 0 backend_down login_form duplicate_blocked_store)) = Some DEMO_STUDENT \<and>
   a_error (fst (handleSubmit 0 backend_down login_form duplicate_blocked_store)) \<noteq> blocked_message"
proof -
  have v: "validateForm login_form = None"
    by (simp add: login_form_def validateForm_def emailRegex_test_def email_char_def is_space_def)
  have g: "getStoredUsers (r_users backend_down) duplicate_blocked_store =
      (stored_users duplicate_blocked_store, duplicate_blocked_store)"
    using duplicate_blocked_store_users
    by (simp add: getStoredUsers_offline[OF duplicate_blocked_store_offline]
        getStoredUsers_fallback_def stored_users_eq split: option.splits)
  have h: "handleSubmit 0 backend_down login_form duplicate_blocked_store =
      (login_form\<lparr>a_error := '''', a_isLoading := True\<rparr>, Some DEMO_STUDENT, duplicate_blocked_store)"
    by (simp add: handleSubmit_def v g duplicate_blocked_store_users Let_def)
       (simp add: login_form_def ADMIN_USER_def DEMO_STUDENT_def)
  show ?thesis
    by (simp add: h duplicate_blocked_store_users)
       (simp add: login_form_def DEMO_STUDENT_def blocked_message_def)
qed

theorem cancelBooking_idempotent_witness:
  "isOfflineMode example_bookings_store \<and>
   ''bk-1'' \<in> b_id ` set (stored_bookings example_bookings_store) \<and>
   map (\<lambda>b. (b_id b, b_status b))
       (stored_bookings (cancelBooking ''bk-1'' NetworkFailure NetworkFailure example_bookings_store))
     = [(''bk-1'', CANCELLED), (''bk-2'', ACTIVE)] \<and>
   cancelBooking ''bk-1'' NetworkFailure NetworkFailure
       (cancelBooking ''bk-1'' NetworkFailure NetworkFailure example_bookings_store)
     = cancelBooking ''bk-1'' NetworkFailure NetworkFailure example_bookings_store"
proof -
  have h1: "isOfflineMode example_bookings_store"
    by (simp add: example_bookings_store_def offline_store_def)
  have h2: "''bk-1'' \<in> b_id ` set (stored_bookings example_bookings_store)"
    by (simp add: example_bookings_store_def stored_bookings_eq example_booking_def)
  have e: "map (\<lambda>b. (b_id b, b_status b))
       (stored_bookings (cancelBooking ''bk-1'' NetworkFailure NetworkFailure example_bookings_store))
     = [(''bk-1'', CANCELLED), (''bk-2'', ACTIVE)]"
    by (simp add: cancelBooking_offline[OF h1])
       (simp add: example_bookings_store_def stored_bookings_eq example_booking_def)
  from cancelBooking_idempotent[OF h1 h2, of NetworkFailure NetworkFailure NetworkFailure NetworkFailure]
    h1 h2 e
  show ?thesis by (simp only: simp_thms)
qed

theorem toggleSeatMaintenance_involution_witness:
  "isOfflineMode offline_store \<and>
   ''s-l2'' \<in> s_id ` set (stored_seats offline_store) \<and>
   ''s-zz'' \<notin> s_id ` set (stored_seats offline_store) \<and>
   stored_seats (toggleSeatMaintenance ''s-l2'' NetworkFailure NetworkFailure offline_store)
     = INITIAL_SEATS[1 := (INITIAL_SEATS ! 1)\<lparr>s_isMaintenance := True\<rparr>] \<and>
   stored_seats (toggleSeatMaintenance ''s-l2'' NetworkFailure NetworkFailure
                  (toggleSeatMaintenance ''s-l2'' NetworkFailure NetworkFailure offline_store))
     = INITIAL_SEATS \<and>
   stored_seats (toggleSeatMaintenance ''s-zz'' NetworkFailure NetworkFailure offline_store)
     = INITIAL_SEATS"
proof -
  have h: "isOfflineMode offline_store" by (simp add: offline_store_def)
  have ss: "stored_seats offline_store = INITIAL_SEATS"
    by (simp add: stored_seats_eq offline_store_def)
  have ids: "map s_id INITIAL_SEATS =
    [''s-l1'', ''s-l2'', ''s-l3'', ''s-pc1'', ''s-pc2'', ''s-pc3'', ''s-pc4'',
     ''s-t1-1'', ''s-t1-2'', ''s-t1-3'', ''s-t1-4'', ''s-t2-1'', ''s-t2-2'', ''s-t2-3'', ''s-t2-4'',
     ''s-c1'', ''s-c2'', ''s-c3'', ''s-c4'', ''s-c5'', ''s-c6'', ''s-c7'', ''s-c8'', ''s-c9'',
     ''s-c10'', ''s-c11'', ''s-c12'']"
    by (simp add: INITIAL_SEATS_def mkSeat_def)
  have img: "s_id ` set INITIAL_SEATS = set (map s_id INITIAL_SEATS)" by simp
  have p: "''s-l2'' \<in> s_id ` set (stored_seats offline_store)"
    unfolding ss img ids by simp
  have q: "''s-zz'' \<notin> s_id ` set (stored_seats offline_store)"
    unfolding ss img ids by simp
  have fi: "findIndex (\<lambda>s. s_id s = ''s-l2'') INITIAL_SEATS = Some 1"
    by (simp add: INITIAL_SEATS_def mkSeat_def)
  have m: "\<not> s_isMaintenance (INITIAL_SEATS ! Suc 0)"
    by (simp add: INITIAL_SEATS_def mkSeat_def)
  have one: "stored_seats (toggleSeatMaintenance ''s-l2'' NetworkFailure NetworkFailure offline_store)
     = INITIAL_SEATS[1 := (INITIAL_SEATS ! 1)\<lparr>s_isMaintenance := True\<rparr>]"
    by (simp add: toggleSeatMaintenance_offline[OF h] ss fi m)
  from toggleSeatMaintenance_involution[OF h, of "''s-l2''" NetworkFailure NetworkFailure
      NetworkFailure NetworkFailure]
  have two: "stored_seats (toggleSeatMaintenance ''s-l2'' NetworkFailure NetworkFailure
                  (toggleSeatMaintenance ''s-l2'' NetworkFailure NetworkFailure offline_store))
     = INITIAL_SEATS"
    by (simp only: ss)
  from toggleSeatMaintenance_involution[OF h, of "''s-zz''" NetworkFailure NetworkFailure
      NetworkFailure NetworkFailure] q
  have three: "stored_seats (toggleSeatMaintenance ''s-zz'' NetworkFailure NetworkFailure offline_store)
     = INITIAL_SEATS"
    by (simp only: ss simp_thms)
  from h p q one two three show ?thesis by (simp only: simp_thms)
qed

theorem generateLabel_from_position_witness:
  "(2::nat) < 191 \<and> (of_char (hd (generateLabel 4 2)) :: nat) = of_char (CHR ''A'') + 2 \<and>
   decimal_value (tl (generateLabel 4 2)) = 4 + 1 \<and>
   ad_isEditMode (example_editor None) \<and> ad_selectedSeat (example_editor None) = None \<and>
   map (\<lambda>s. (s_label s, s_x s, s_y s))
       (ad_seats (fst (handleEmptySlotClick 4 2 7 NetworkFailure (example_editor None) offline_store)))
     = [(''L1'', 1, 1), (''L1'', 2, 1), (''C5'', 4, 2)] \<and>
   map (\<lambda>s. (s_id s, s_label s, s_x s, s_y s))
       (ad_seats (fst (handleEmptySlotClick 0 0 7 NetworkFailure
                         (example_editor (Some (example_seat ''s-l2'' 2 180))) offline_store)))
     = [(''s-l1'', ''L1'', 1, 1), (''s-l2'', ''A1'', 0, 0)]"
proof -
  let ?sel = "example_seat ''s-l2'' 2 180"
  have c: "ad_isEditMode (example_editor None) \<and> ad_selectedSeat (example_editor None) = None"
    and mv: "ad_isEditMode (example_editor (Some ?sel)) \<and>
             ad_selectedSeat (example_editor (Some ?sel)) = Some ?sel"
    by (simp_all add: example_editor_def)
  note w1 = generateLabel_from_position[of 2 4 "example_editor None" 7 NetworkFailure offline_store ?sel]
  note w2 = generateLabel_from_position[of 0 0 "example_editor (Some ?sel)" 7 NetworkFailure
      offline_store ?sel]
  from w1 c obtain newSeat where n:
    "ad_seats (fst (handleEmptySlotClick 4 2 7 NetworkFailure (example_editor None) offline_store))
       = ad_seats (example_editor None) @ [newSeat]"
    "s_x newSeat = 4" "s_y newSeat = 2" "s_label newSeat = generateLabel 4 2"
    by blast
  from w1 have l: "generateLabel 4 2 = ''C5''" "generateLabel 0 0 = ''A1''" by blast+
  have a: "map (\<lambda>s. (s_label s, s_x s, s_y s))
       (ad_seats (fst (handleEmptySlotClick 4 2 7 NetworkFailure (example_editor None) offline_store)))
     = [(''L1'', 1, 1), (''L1'', 2, 1), (''C5'', 4, 2)]"
    using n l by (simp add: example_editor_def example_seat_def mkSeat_def)
  from w2 mv have "ad_seats (fst (handleEmptySlotClick 0 0 7 NetworkFailure
                         (example_editor (Some ?sel)) offline_store)) =
      map (\<lambda>s. if s_id s = s_id ?sel
                then s\<lparr>s_x := 0, s_y := 0, s_label := generateLabel 0 0\<rparr> else s)
          (ad_seats (example_editor (Some ?sel)))"
    by blast
  then have b: "map (\<lambda>s. (s_id s, s_label s, s_x s, s_y s))
       (ad_seats (fst (handleEmptySlotClick 0 0 7 NetworkFailure
                         (example_editor (Some ?sel)) offline_store)))
     = [(''s-l1'', ''L1'', 1, 1), (''s-l2'', ''A1'', 0, 0)]"
    using l by (simp add: example_editor_def example_seat_def mkSeat_def)
  have lt: "(2::nat) < 191" by simp
  from w1 lt have "(of_char (hd (generateLabel 4 2)) :: nat) = of_char (CHR ''A'') + 2"
    "decimal_value (tl (generateLabel 4 2)) = 4 + 1"
    by blast+
  with a b c lt show ?thesis by (simp only: simp_thms)
qed

theorem rotate_four_times_witness:
  "ad_selectedSeat (example_editor (Some (example_seat ''s-l1'' 1 0))) = Some (example_seat ''s-l1'' 1 0) \<and>
   0 \<le> s_rotation (example_seat ''s-l1'' 1 0) \<and> s_rotation (example_seat ''s-l1'' 1 0) < 360 \<and>
   map s_rotation
     (ad_seats (fst (handleRotateSeat NetworkFailure (example_editor (Some (example_seat ''s-l1'' 1 0)))
                       offline_store))) = [90, 180] \<and>
   fst (rotations [NetworkFailure, NetworkFailure, NetworkFailure, NetworkFailure]
          (example_editor (Some (example_seat ''s-l1'' 1 0)), offline_store))
     = example_editor (Some (example_seat ''s-l1'' 1 0))"
proof -
  let ?sel = "example_seat ''s-l1'' 1 0"
  let ?ad = "example_editor (Some ?sel)"
  have h1: "ad_selectedSeat ?ad = Some ?sel" by (simp add: example_editor_def)
  have h2: "0 \<le> s_rotation ?sel" and h3: "s_rotation ?sel < 360"
    by (simp_all add: example_seat_def mkSeat_def)
  have sync: "\<forall>s \<in> set (ad_seats ?ad). s_id s = s_id ?sel \<longrightarrow> s_rotation s = s_rotation ?sel"
    by (simp add: example_editor_def example_seat_def mkSeat_def)
  note w = rotate_four_times[OF h1 h2 h3, of NetworkFailure offline_store
      NetworkFailure NetworkFailure NetworkFailure NetworkFailure]
  from w have "map s_rotation (ad_seats (fst (handleRotateSeat NetworkFailure ?ad offline_store)))
      = [90, 180]"
    by (simp add: example_editor_def example_seat_def mkSeat_def)
  moreover from w sync have "fst (rotations [NetworkFailure, NetworkFailure, NetworkFailure, NetworkFailure]
          (?ad, offline_store)) = ?ad"
    by blast
  ultimately show ?thesis using h1 h2 h3 by (simp only: simp_thms)
qed

end
